theory Spec2Isabelle
  imports Complex_Main "HOL-Library.Word"
begin

unbundle bit_operations_syntax

section \<open>Data model (types/sdk.ts)\<close>

text \<open>
  The numeric fields of \<open>WalletMetrics\<close> are TypeScript \<open>number\<close>s. Nothing in the code
  makes them integers (\<open>validateMetrics\<close> only compares them with bounds, and the
  aggregator passes on what the network answers), so they are rationals: the arithmetic of
  the scoring engine (differences, products with small constants, \<open>min\<close>) is exact on
  them, as it is on the doubles of the source for values of this size with a short binary
  expansion. \<open>NaN\<close> and the infinities are not modelled. Results of \<open>Math.round\<close> and
  \<open>Math.floor\<close> and readings of the clock are integers. \<open>Date.now()\<close> is an explicit
  argument \<open>now\<close> of the functions that read the clock (for the ledger, a field of its
  environment).
\<close>

record WalletMetrics =
  address :: string
  transactionCount :: rat
  walletAgeMonths :: rat
  defiScore :: rat
  repaymentRate :: rat
  tokenBalance :: rat
  lastTransactionDate :: rat

datatype RiskLevel = Low | Medium | High

text \<open>
  Of an assessment, \<open>finalScore\<close> is the result of \<open>Math.round\<close>, an integer;
  \<open>bonusPoints\<close> is the sum of the bonuses as computed, not rounded.
\<close>

record CreditAssessment =
  assessment_address :: string
  metrics :: WalletMetrics
  baseScore :: rat
  bonusPoints :: rat
  finalScore :: int
  riskLevel :: RiskLevel
  timestamp :: int

text \<open>
  The error classes of types/sdk.ts, as values. \<open>Error msg\<close> is the built-in JavaScript
  \<open>Error\<close>; \<open>SDKError msg code\<close> carries its machine-readable code; the three subclasses
  fix their code (\<open>RPC_ERROR\<close>, \<open>PROOF_GENERATION_ERROR\<close>, \<open>TRANSACTION_ERROR\<close>).
\<close>

datatype error =
    Error string
  | SDKError string string
  | RPCError string
  | ProofGenerationError string
  | TransactionError string

fun message :: "error \<Rightarrow> string" where
  "message (Error m) = m"
| "message (SDKError m c) = m"
| "message (RPCError m) = m"
| "message (ProofGenerationError m) = m"
| "message (TransactionError m) = m"

section \<open>Scoring constants (lib/constants: \<open>SCORING_CONFIG\<close>, \<open>RISK_LEVELS\<close>)\<close>

record bonus_config =
  threshold :: rat
  pointsPer :: rat
  maxPoints :: rat

definition BASE_SCORE :: rat where "BASE_SCORE = 300"
definition MAX_SCORE :: rat where "MAX_SCORE = 850"

definition TRANSACTION_COUNT :: bonus_config where
  "TRANSACTION_COUNT = \<lparr>threshold = 10, pointsPer = 5, maxPoints = 100\<rparr>"

text \<open>The source calls the rate of this entry \<open>pointsPerMonth\<close>.\<close>

definition WALLET_AGE :: bonus_config where
  "WALLET_AGE = \<lparr>threshold = 3, pointsPer = 10, maxPoints = 100\<rparr>"

definition DEFI_SCORE :: bonus_config where
  "DEFI_SCORE = \<lparr>threshold = 20, pointsPer = 3, maxPoints = 100\<rparr>"

definition REPAYMENT_RATE :: bonus_config where
  "REPAYMENT_RATE = \<lparr>threshold = 75, pointsPer = 2, maxPoints = 150\<rparr>"

definition LOW_minScore :: rat where "LOW_minScore = 750"
definition MEDIUM_minScore :: rat where "MEDIUM_minScore = 500"
definition HIGH_minScore :: rat where "HIGH_minScore = 0"

section \<open>ScoringEngine (lib/sdk/ScoringEngine.ts)\<close>

definition calculateTransactionBonus :: "rat \<Rightarrow> rat" where
  "calculateTransactionBonus count =
     (let config = TRANSACTION_COUNT in
      if count < threshold config then 0
      else let bonus = (count - threshold config) * pointsPer config
           in min bonus (maxPoints config))"

definition calculateAgeBonus :: "rat \<Rightarrow> rat" where
  "calculateAgeBonus months =
     (let config = WALLET_AGE in
      if months < threshold config then 0
      else let bonus = months * pointsPer config
           in min bonus (maxPoints config))"

definition calculateDeFiBonus :: "rat \<Rightarrow> rat" where
  "calculateDeFiBonus score =
     (let config = DEFI_SCORE in
      if score < threshold config then 0
      else let bonus = (score - threshold config) * pointsPer config
           in min bonus (maxPoints config))"

definition calculateRepaymentBonus :: "rat \<Rightarrow> rat" where
  "calculateRepaymentBonus rate =
     (let config = REPAYMENT_RATE in
      if rate < threshold config then 0
      else let bonus = (rate - threshold config) * pointsPer config
           in min bonus (maxPoints config))"

definition getRiskLevel :: "rat \<Rightarrow> RiskLevel" where
  "getRiskLevel score =
     (if score \<ge> LOW_minScore then Low
      else if score \<ge> MEDIUM_minScore then Medium
      else High)"

text \<open>
  \<open>Math.round\<close> rounds to the nearest integer, a half upwards:
  \<open>Math.round(x) = floor(x + 0.5)\<close>.
\<close>

definition Math_round :: "rat \<Rightarrow> int" where
  "Math_round x = \<lfloor>x + 1 / 2\<rfloor>"

text \<open>
  \<open>calculateScore\<close> has no \<open>throw\<close> and calls nothing that throws: it returns an
  assessment for every metrics record. The local \<open>finalScore\<close> of the source, the capped
  sum before rounding, is \<open>cappedScore\<close> here: the risk level is computed from it, and
  the field \<open>finalScore\<close> of the result is \<open>Math.round\<close> of it.
\<close>

definition calculateScore :: "WalletMetrics \<Rightarrow> int \<Rightarrow> CreditAssessment" where
  "calculateScore m now =
     (let baseScore = BASE_SCORE;
          txBonus = calculateTransactionBonus (transactionCount m);
          ageBonus = calculateAgeBonus (walletAgeMonths m);
          defiBonus = calculateDeFiBonus (defiScore m);
          repaymentBonus = calculateRepaymentBonus (repaymentRate m);
          totalBonus = txBonus + ageBonus + defiBonus + repaymentBonus;
          cappedScore = min MAX_SCORE (baseScore + totalBonus);
          riskLevel = getRiskLevel cappedScore
      in \<lparr>assessment_address = address m,
          metrics = m,
          baseScore = baseScore,
          bonusPoints = totalBonus,
          finalScore = Math_round cappedScore,
          riskLevel = riskLevel,
          timestamp = now\<rparr>)"

definition startsWith :: "string \<Rightarrow> string \<Rightarrow> bool" where
  "startsWith s p = (take (length p) s = p)"

text \<open>
  \<open>validateMetrics\<close> returns nothing or throws the built-in \<open>Error\<close>; the checks are in
  the source's order, so the first failing one decides the message.
\<close>

definition validateMetrics :: "WalletMetrics \<Rightarrow> error + unit" where
  "validateMetrics m =
     (if address m = [] \<or> \<not> startsWith (address m) ''aleo1''
        then Inl (Error ''Invalid Aleo address format'')
      else if transactionCount m < 0
        then Inl (Error ''Transaction count cannot be negative'')
      else if walletAgeMonths m < 0
        then Inl (Error ''Wallet age cannot be negative'')
      else if defiScore m < 0 \<or> defiScore m > 100
        then Inl (Error ''DeFi score must be between 0 and 100'')
      else if repaymentRate m < 0 \<or> repaymentRate m > 100
        then Inl (Error ''Repayment rate must be between 0 and 100'')
      else if tokenBalance m < 0
        then Inl (Error ''Token balance cannot be negative'')
      else Inr ())"

section \<open>Ledger types and polling constants (types/sdk.ts, lib/constants: \<open>TX_POLLING\<close>)\<close>

datatype TxStatus = Pending | Confirmed | Failed

text \<open>
  \<open>AleoTransaction.id\<close> and \<open>AleoTransaction.timestamp\<close> are renamed (\<open>id\<close> is the HOL
  identity, \<open>timestamp\<close> is a field of \<open>CreditAssessment\<close>); optional fields are options.
\<close>

record AleoTransaction =
  tx_id :: string
  status :: TxStatus
  blockHeight :: "int option"
  tx_timestamp :: "int option"

record CreditRecord =
  owner :: string
  score :: int
  score_threshold :: int
  issuedBlock :: int
  issuedAt :: int

record CreditIssuanceResult =
  success :: bool
  transactionId :: string
  creditRecord :: "CreditRecord option"
  error_message :: "string option"

record Groth16Proof =
  proof_a :: "string list"
  proof_b :: "string list list"
  proof_c :: "string list"

record ZKProof =
  proofHash :: string
  publicInputs :: "string list"
  proof_components :: Groth16Proof

record LedgerTransaction =
  program :: string
  function_name :: string
  inputs :: "string list"
  caller :: string
  signature :: string
  fee :: string

definition INTERVAL :: nat where "INTERVAL = 500"
definition MAX_ATTEMPTS :: nat where "MAX_ATTEMPTS = 20"

section \<open>Hex encoding (bytesToHex, generateMockTxId)\<close>

definition hex_alphabet :: string where
  "hex_alphabet = ''0123456789abcdef''"

definition hexDigit :: "nat \<Rightarrow> char" where
  "hexDigit n = hex_alphabet ! (n mod 16)"

definition byteToHex :: "8 word \<Rightarrow> string" where
  "byteToHex b = [hexDigit (unat b div 16), hexDigit (unat b mod 16)]"

definition bytesToHex :: "8 word list \<Rightarrow> string" where
  "bytesToHex bs = concat (map byteToHex bs)"

text \<open>
  \<open>new Uint8Array(32)\<close> filled by \<open>crypto.getRandomValues\<close>: the random source gives the
  byte at each index, the array always has 32 entries.
\<close>

definition randomBytes32 :: "(nat \<Rightarrow> 8 word) \<Rightarrow> 8 word list" where
  "randomBytes32 rnd = map rnd [0..<32]"

section \<open>BlockchainAdapter (lib/sdk/BlockchainAdapter.ts)\<close>

text \<open>
  What the adapter reads from outside: the outcome of the \<open>n\<close>-th broadcast request it
  sends (the transaction id of the response, or the error the HTTP client ends with), the
  outcome of the \<open>k\<close>-th status request for a transaction id, the random values of the
  development fallbacks, and the clock after \<open>k\<close> polls.
\<close>

record ledger_env =
  broadcast_reply :: "nat \<Rightarrow> error + string"
  transaction_reply :: "string \<Rightarrow> nat \<Rightarrow> error + AleoTransaction"
  txid_random :: "nat \<Rightarrow> 8 word"
  blockHeight_random :: "nat \<Rightarrow> int"
  score_random :: int
  clock :: "nat \<Rightarrow> int"

definition mockSign :: "string \<Rightarrow> string \<Rightarrow> string" where
  "mockSign msg privateKey = ''sig_'' @ take 16 msg"

definition buildTransaction ::
  "string \<Rightarrow> ZKProof \<Rightarrow> string \<Rightarrow> string \<Rightarrow> LedgerTransaction" where
  "buildTransaction contractAddress proof userAddress privateKey =
     \<lparr>program = contractAddress,
      function_name = ''verify_and_issue'',
      inputs = [proofHash proof, ''300''],
      caller = userAddress,
      signature = mockSign (proofHash proof) privateKey,
      fee = ''1000000''\<rparr>"

definition generateMockTxId :: "ledger_env \<Rightarrow> string" where
  "generateMockTxId env = ''at1'' @ bytesToHex (randomBytes32 (txid_random env))"

text \<open>
  \<open>broadcastTransaction\<close> sends one broadcast request, catches every error of it and
  returns a mock transaction id instead ("Return mock transaction ID for development"): it
  never throws. The argument \<open>sent\<close> is the number of broadcast requests sent before the
  call; the function returns the transaction id and the number sent after it.
\<close>

definition broadcastTransaction ::
  "ledger_env \<Rightarrow> nat \<Rightarrow> LedgerTransaction \<Rightarrow> string \<times> nat" where
  "broadcastTransaction env sent transaction =
     (case broadcast_reply env sent of
        Inr transaction_id \<Rightarrow> (transaction_id, sent + 1)
      | Inl e \<Rightarrow> (generateMockTxId env, sent + 1))"

text \<open>
  \<open>queryTransaction\<close> catches every error of the request and returns a mock confirmed
  transaction; \<open>k\<close> counts the status requests made before this one.
\<close>

definition queryTransaction :: "ledger_env \<Rightarrow> string \<Rightarrow> nat \<Rightarrow> AleoTransaction" where
  "queryTransaction env txId k =
     (case transaction_reply env txId k of
        Inr response \<Rightarrow> response
      | Inl e \<Rightarrow> \<lparr>tx_id = txId, status = Confirmed,
                  blockHeight = Some (blockHeight_random env k),
                  tx_timestamp = Some (clock env k)\<rparr>)"

text \<open>
  The state of the polling loop: the counter \<open>attempts\<close> of the source, and two
  observations of what the loop did: the number of status polls made and the durations
  slept, in order.
\<close>

record poll_state =
  attempts :: nat
  polls :: nat
  sleeps :: "nat list"

definition sleep :: "nat \<Rightarrow> poll_state \<Rightarrow> poll_state" where
  "sleep ms st = st\<lparr>sleeps := sleeps st @ [ms]\<rparr>"

text \<open>
  The statements of the \<open>try\<close> block before the sleep, given the outcome of
  \<open>await this.queryTransaction(txId)\<close>: \<open>Inr (Some tx)\<close> is \<open>return tx\<close>, \<open>Inr None\<close>
  falls through to the sleep, \<open>Inl e\<close> is an exception thrown inside the \<open>try\<close>, which
  the \<open>catch\<close> of the same statement receives.
\<close>

definition poll_try :: "error + AleoTransaction \<Rightarrow> error + AleoTransaction option" where
  "poll_try r =
     (case r of
        Inl e \<Rightarrow> Inl e
      | Inr tx \<Rightarrow>
          if status tx = Confirmed then Inr (Some tx)
          else if status tx = Failed then Inl (TransactionError ''Transaction failed on-chain'')
          else Inr None)"

text \<open>
  The \<open>while\<close> loop of \<open>waitForConfirmation\<close>, over the outcomes \<open>q k\<close> of the successive
  calls of \<open>queryTransaction\<close>. The \<open>catch\<close> branch does not look at the error it caught.
\<close>

function waitForConfirmation_loop ::
  "(nat \<Rightarrow> error + AleoTransaction) \<Rightarrow> poll_state \<Rightarrow> (error + AleoTransaction) \<times> poll_state" where
  "waitForConfirmation_loop q st =
     (if attempts st < MAX_ATTEMPTS then
        (let st1 = st\<lparr>polls := polls st + 1\<rparr> in
         case poll_try (q (polls st)) of
           Inr (Some tx) \<Rightarrow> (Inr tx, st1)
         | Inr None \<Rightarrow>
             waitForConfirmation_loop q ((sleep INTERVAL st1)\<lparr>attempts := attempts st + 1\<rparr>)
         | Inl e \<Rightarrow>
             if attempts st \<ge> MAX_ATTEMPTS - 1
             then (Inl (TransactionError ''Transaction confirmation timeout''), st1)
             else waitForConfirmation_loop q ((sleep INTERVAL st1)\<lparr>attempts := attempts st + 1\<rparr>))
      else (Inl (TransactionError ''Transaction confirmation timeout''), st))"
  by pat_completeness auto
termination
  by (relation "measure (\<lambda>(q, st). MAX_ATTEMPTS - attempts st)") (auto simp add: sleep_def)

declare waitForConfirmation_loop.simps [simp del]

definition poll_start :: poll_state where
  "poll_start = \<lparr>attempts = 0, polls = 0, sleeps = []\<rparr>"

definition waitForConfirmation ::
  "ledger_env \<Rightarrow> string \<Rightarrow> (error + AleoTransaction) \<times> poll_state" where
  "waitForConfirmation env txId =
     waitForConfirmation_loop (\<lambda>k. Inr (queryTransaction env txId k)) poll_start"

text \<open>\<open>x || d\<close> on a number: \<open>0\<close> is falsy; an absent optional field is \<open>undefined\<close>.\<close>

definition or_default :: "'a::zero option \<Rightarrow> 'a \<Rightarrow> 'a" where
  "or_default x d = (case x of None \<Rightarrow> d | Some v \<Rightarrow> if v = 0 then d else v)"

definition extractCreditRecord ::
  "ledger_env \<Rightarrow> nat \<Rightarrow> AleoTransaction \<Rightarrow> string \<Rightarrow> CreditRecord" where
  "extractCreditRecord env k transaction userAddress =
     \<lparr>owner = userAddress,
      score = 300 + score_random env,
      score_threshold = 300,
      issuedBlock = or_default (blockHeight transaction) 0,
      issuedAt = or_default (tx_timestamp transaction) (clock env k)\<rparr>"

text \<open>
  What a call of \<open>submitProof\<close> did besides returning: the number of broadcast requests
  sent, the transaction id it passed to \<open>waitForConfirmation\<close>, and the state in which
  the polling loop ended.
\<close>

record submission_trace =
  broadcast_requests :: nat
  polled_txId :: string
  polling :: poll_state

text \<open>
  \<open>submitProof\<close> wraps the four steps in one \<open>try\<close>; whatever is thrown becomes a result
  with \<open>success = false\<close>, an empty transaction id and the error's message.
  \<open>submitProof_traced\<close> is the function with the trace of what it did, \<open>submitProof\<close>
  its result.
\<close>

definition submitProof_traced ::
  "ledger_env \<Rightarrow> string \<Rightarrow> ZKProof \<Rightarrow> string \<Rightarrow> string
     \<Rightarrow> CreditIssuanceResult \<times> submission_trace" where
  "submitProof_traced env contractAddress proof userAddress privateKey =
     (let transaction = buildTransaction contractAddress proof userAddress privateKey;
          (txId, sent) = broadcastTransaction env 0 transaction;
          (outcome, st) = waitForConfirmation env txId;
          trace = \<lparr>broadcast_requests = sent, polled_txId = txId, polling = st\<rparr>
      in case outcome of
           Inr confirmedTx \<Rightarrow>
             (\<lparr>success = True,
               transactionId = txId,
               creditRecord = Some (extractCreditRecord env (polls st) confirmedTx userAddress),
               error_message = None\<rparr>, trace)
         | Inl e \<Rightarrow>
             (\<lparr>success = False,
               transactionId = [],
               creditRecord = None,
               error_message = Some (message e)\<rparr>, trace))"

definition submitProof ::
  "ledger_env \<Rightarrow> string \<Rightarrow> ZKProof \<Rightarrow> string \<Rightarrow> string \<Rightarrow> CreditIssuanceResult" where
  "submitProof env contractAddress proof userAddress privateKey =
     fst (submitProof_traced env contractAddress proof userAddress privateKey)"

section \<open>The cache of the DataAggregator (external library lru-cache)\<close>

text \<open>
  The library is not part of the repository. Its documented behaviour for the options the
  aggregator sets (\<open>max\<close>, \<open>ttl\<close>, \<open>updateAgeOnGet\<close>) is modelled by a list of entries
  (key, value, start of age), most recently used first:
  \<^item> \<open>get\<close> of an entry older than \<open>ttl\<close> deletes it and returns nothing; \<open>get\<close> of a
    fresh entry makes it the most recently used one and restarts its age;
  \<^item> \<open>set\<close> puts the entry in front and, when a new key would exceed \<open>max\<close> entries,
    evicts the least recently used one;
  \<^item> \<open>delete\<close> removes the entry of a key, \<open>clear\<close> all entries.
\<close>

type_synonym 'v lru = "(string \<times> 'v \<times> int) list"

definition lru_delete :: "'v lru \<Rightarrow> string \<Rightarrow> 'v lru" where
  "lru_delete c k = filter (\<lambda>e. fst e \<noteq> k) c"

definition lru_get :: "int \<Rightarrow> 'v lru \<Rightarrow> string \<Rightarrow> int \<Rightarrow> 'v option \<times> 'v lru" where
  "lru_get ttl c k now =
     (case map_of c k of
        None \<Rightarrow> (None, c)
      | Some (v, start) \<Rightarrow>
          if now - start > ttl then (None, lru_delete c k)
          else (Some v, (k, v, now) # lru_delete c k))"

definition lru_set :: "nat \<Rightarrow> 'v lru \<Rightarrow> string \<Rightarrow> 'v \<Rightarrow> int \<Rightarrow> 'v lru" where
  "lru_set mx c k v now =
     (case map_of c k of
        Some old \<Rightarrow> (k, v, now) # lru_delete c k
      | None \<Rightarrow> (k, v, now) # (if length c \<ge> mx then butlast c else c))"

section \<open>DataAggregator (lib/sdk/DataAggregator.ts, lib/constants: \<open>CACHE_CONFIG\<close>, \<open>FEATURES\<close>)\<close>

definition METRICS_TTL :: int where "METRICS_TTL = 1000 * 60 * 60"
definition MAX_CACHE_SIZE :: nat where "MAX_CACHE_SIZE = 100"

text \<open>
  What the aggregator reads from outside: the flag \<open>FEATURES.ENABLE_MOCK_DATA\<close>
  (\<open>NODE_ENV === 'development'\<close>) and, for an address at a time, the outcome of each of
  the five requests: the error the HTTP client ends with, or the field of the JSON
  response that the source reads (absent is \<open>None\<close>).
\<close>

record rpc_env =
  ENABLE_MOCK_DATA :: bool
  transactions_reply :: "string \<Rightarrow> int \<Rightarrow> error + rat option"
  info_reply :: "string \<Rightarrow> int \<Rightarrow> error + rat option"
  defi_reply :: "string \<Rightarrow> int \<Rightarrow> error + rat option"
  lending_reply :: "string \<Rightarrow> int \<Rightarrow> error + rat option"
  balance_reply :: "string \<Rightarrow> int \<Rightarrow> error + rat option"

record aggregator =
  cache :: "WalletMetrics lru"

text \<open>
  \<open>hashAddress\<close>: \<open>hash << 5\<close> and \<open>hash & hash\<close> work on 32-bit integers, so the
  accumulator is a 32-bit word (the sum in between is exact in a double); the result is
  \<open>Math.abs\<close> of its signed value. \<open>charCodeAt\<close> is the character code (addresses are
  ASCII).
\<close>

definition hashStep :: "32 word \<Rightarrow> char \<Rightarrow> 32 word" where
  "hashStep hash ch =
     (let h = push_bit 5 hash - hash + of_nat (of_char ch) in h AND h)"

definition hashAddress :: "string \<Rightarrow> int" where
  "hashAddress str = \<bar>sint (foldl hashStep 0 str)\<bar>"

definition getMockTransactionCount :: "string \<Rightarrow> int" where
  "getMockTransactionCount addr = hashAddress addr mod 100"

definition getMockWalletAge :: "string \<Rightarrow> int" where
  "getMockWalletAge addr = (hashAddress addr mod 36) + 1"

definition getMockDeFiScore :: "string \<Rightarrow> int" where
  "getMockDeFiScore addr = hashAddress addr mod 101"

definition getMockRepaymentRate :: "string \<Rightarrow> int" where
  "getMockRepaymentRate addr = (hashAddress addr mod 50) + 50"

definition getMockBalance :: "string \<Rightarrow> int" where
  "getMockBalance addr = (hashAddress addr mod 100000) + 1000"

definition getMockMetrics :: "string \<Rightarrow> int \<Rightarrow> WalletMetrics" where
  "getMockMetrics addr now =
     (let hash = hashAddress addr in
      \<lparr>address = addr,
       transactionCount = of_int (getMockTransactionCount addr),
       walletAgeMonths = of_int (getMockWalletAge addr),
       defiScore = of_int (getMockDeFiScore addr),
       repaymentRate = of_int (getMockRepaymentRate addr),
       tokenBalance = of_int (getMockBalance addr),
       lastTransactionDate = of_int (now - hash mod (1000 * 60 * 60 * 24 * 30))\<rparr>)"

text \<open>
  Each query catches the error of its request and falls back to the mock value. What the
  response holds is passed on as it is (within the bounds of \<open>Math.min\<close> and
  \<open>Math.max\<close>), a fraction too; only the wallet age goes through \<open>Math.floor\<close>.
\<close>

definition queryTransactionCount :: "rpc_env \<Rightarrow> string \<Rightarrow> int \<Rightarrow> rat" where
  "queryTransactionCount env addr now =
     (case transactions_reply env addr now of
        Inr count \<Rightarrow> or_default count 0
      | Inl e \<Rightarrow> of_int (getMockTransactionCount addr))"

definition queryWalletAgeMonths :: "rpc_env \<Rightarrow> string \<Rightarrow> int \<Rightarrow> rat" where
  "queryWalletAgeMonths env addr now =
     (case info_reply env addr now of
        Inr firstSeen \<Rightarrow>
          if or_default firstSeen 0 = 0 then 0
          else let ageMs = of_int now - or_default firstSeen 0;
                   ageMonths = \<lfloor>ageMs / (1000 * 60 * 60 * 24 * 30)\<rfloor>
               in of_int (max 0 ageMonths)
      | Inl e \<Rightarrow> of_int (getMockWalletAge addr))"

definition queryDeFiScore :: "rpc_env \<Rightarrow> string \<Rightarrow> int \<Rightarrow> rat" where
  "queryDeFiScore env addr now =
     (case defi_reply env addr now of
        Inr response_score \<Rightarrow> min 100 (max 0 (or_default response_score 0))
      | Inl e \<Rightarrow> of_int (getMockDeFiScore addr))"

definition queryRepaymentRate :: "rpc_env \<Rightarrow> string \<Rightarrow> int \<Rightarrow> rat" where
  "queryRepaymentRate env addr now =
     (case lending_reply env addr now of
        Inr rate \<Rightarrow> min 100 (max 0 (or_default rate 0))
      | Inl e \<Rightarrow> of_int (getMockRepaymentRate addr))"

definition queryTokenBalance :: "rpc_env \<Rightarrow> string \<Rightarrow> int \<Rightarrow> rat" where
  "queryTokenBalance env addr now =
     (case balance_reply env addr now of
        Inr balance \<Rightarrow> max 0 (or_default balance 0)
      | Inl e \<Rightarrow> of_int (getMockBalance addr))"

text \<open>
  \<open>fetchWalletMetrics\<close>, with the aggregator passed and returned and one clock reading
  \<open>now\<close> per call. The mock branch returns without storing its result in the cache. None
  of the five queries throws, so the \<open>catch\<close> that wraps them in \<open>RPCError\<close> is never
  entered.
\<close>

definition fetchWalletMetrics ::
  "rpc_env \<Rightarrow> aggregator \<Rightarrow> string \<Rightarrow> int \<Rightarrow> (error + WalletMetrics) \<times> aggregator" where
  "fetchWalletMetrics env agg addr now =
     (if addr = [] \<or> \<not> startsWith addr ''aleo1''
      then (Inl (RPCError ''Invalid Aleo address format''), agg)
      else case lru_get METRICS_TTL (cache agg) addr now of
        (Some cached, c) \<Rightarrow> (Inr cached, agg\<lparr>cache := c\<rparr>)
      | (None, c) \<Rightarrow>
          if ENABLE_MOCK_DATA env then (Inr (getMockMetrics addr now), agg\<lparr>cache := c\<rparr>)
          else
            let m = \<lparr>address = addr,
                     transactionCount = queryTransactionCount env addr now,
                     walletAgeMonths = queryWalletAgeMonths env addr now,
                     defiScore = queryDeFiScore env addr now,
                     repaymentRate = queryRepaymentRate env addr now,
                     tokenBalance = queryTokenBalance env addr now,
                     lastTransactionDate = of_int now\<rparr>
            in (Inr m, agg\<lparr>cache := lru_set MAX_CACHE_SIZE c addr m now\<rparr>))"

definition clearCache :: "aggregator \<Rightarrow> string \<Rightarrow> aggregator" where
  "clearCache agg addr = agg\<lparr>cache := lru_delete (cache agg) addr\<rparr>"

definition clearAllCache :: "aggregator \<Rightarrow> aggregator" where
  "clearAllCache agg = agg\<lparr>cache := []\<rparr>"

definition new_aggregator :: aggregator where
  "new_aggregator = \<lparr>cache = []\<rparr>"

text \<open>
  A run of fetches on one aggregator, each with its address and its time; the results
  are dropped, the aggregator is passed on.
\<close>

fun fetch_all :: "rpc_env \<Rightarrow> aggregator \<Rightarrow> (string \<times> int) list \<Rightarrow> aggregator" where
  "fetch_all env agg [] = agg"
| "fetch_all env agg ((addr, now) # rest) =
     fetch_all env (snd (fetchWalletMetrics env agg addr now)) rest"

section \<open>ProofGenerator (lib/sdk/ProofGenerator.ts)\<close>

text \<open>
  What the generator reads from outside: the bytes of the \<open>k\<close>-th call of
  \<open>crypto.getRandomValues\<close>, and the function \<open>sha256\<close> of the library @noble/hashes,
  which is not part of the repository and is taken as a parameter.
\<close>

record crypto_env =
  getRandomValues :: "nat \<Rightarrow> nat \<Rightarrow> 8 word"
  sha256 :: "8 word list \<Rightarrow> 8 word list"

record Witness =
  witness_score :: int
  witness_transactionCount :: rat
  witness_walletAge :: rat
  witness_defiScore :: rat
  witness_repaymentRate :: rat
  secret :: string
  scoreThreshold :: int
  witness_timestamp :: int

definition generateSecret :: "crypto_env \<Rightarrow> nat \<Rightarrow> string" where
  "generateSecret env k = bytesToHex (randomBytes32 (getRandomValues env k))"

definition generateRandomHex :: "crypto_env \<Rightarrow> nat \<Rightarrow> string" where
  "generateRandomHex env k = bytesToHex (randomBytes32 (getRandomValues env k))"

text \<open>\<open>createWitness\<close> makes call \<open>k\<close> of the random source.\<close>

definition createWitness :: "crypto_env \<Rightarrow> nat \<Rightarrow> CreditAssessment \<Rightarrow> Witness" where
  "createWitness env k assessment =
     \<lparr>witness_score = finalScore assessment,
      witness_transactionCount = transactionCount (metrics assessment),
      witness_walletAge = walletAgeMonths (metrics assessment),
      witness_defiScore = defiScore (metrics assessment),
      witness_repaymentRate = repaymentRate (metrics assessment),
      secret = generateSecret env k,
      scoreThreshold = 300,
      witness_timestamp = timestamp assessment\<rparr>"

text \<open>
  The simulated prover ignores the witness and makes the eight calls \<open>k, \<dots>, k + 7\<close> of the
  random source, in the order of the object literal.
\<close>

definition runGroth16Prover :: "crypto_env \<Rightarrow> nat \<Rightarrow> Witness \<Rightarrow> Groth16Proof" where
  "runGroth16Prover env k witness =
     \<lparr>proof_a = [generateRandomHex env k, generateRandomHex env (k + 1)],
      proof_b = [[generateRandomHex env (k + 2), generateRandomHex env (k + 3)],
                 [generateRandomHex env (k + 4), generateRandomHex env (k + 5)]],
      proof_c = [generateRandomHex env (k + 6), generateRandomHex env (k + 7)]\<rparr>"

text \<open>
  \<open>JSON.stringify\<close> of the proof object. The strings it holds are hexadecimal, so a
  string is written between double quotes with nothing to escape.
\<close>

fun join :: "string \<Rightarrow> string list \<Rightarrow> string" where
  "join sep [] = []"
| "join sep [x] = x"
| "join sep (x # y # ys) = x @ sep @ join sep (y # ys)"

definition json_string :: "string \<Rightarrow> string" where
  "json_string str = [CHR 0x22] @ str @ [CHR 0x22]"

definition json_array :: "string list \<Rightarrow> string" where
  "json_array items = ''['' @ join '','' items @ '']''"

definition JSON_stringify :: "Groth16Proof \<Rightarrow> string" where
  "JSON_stringify p =
     ''{'' @ json_string ''a'' @ '':'' @ json_array (map json_string (proof_a p)) @ '','' @
     json_string ''b'' @ '':'' @
       json_array (map (\<lambda>row. json_array (map json_string row)) (proof_b p)) @ '','' @
     json_string ''c'' @ '':'' @ json_array (map json_string (proof_c p)) @ ''}''"

text \<open>\<open>TextEncoder.encode\<close> on ASCII text: one byte for each character.\<close>

definition encode :: "string \<Rightarrow> 8 word list" where
  "encode str = map (\<lambda>ch. of_nat (of_char ch)) str"

definition hashProof :: "crypto_env \<Rightarrow> Groth16Proof \<Rightarrow> string" where
  "hashProof env p =
     (let proofString = JSON_stringify p;
          proofBytes = encode proofString;
          hash = sha256 env proofBytes
      in bytesToHex hash)"

text \<open>\<open>Number.prototype.toString\<close> on an integer: its decimal digits, with a sign.\<close>

fun digits :: "nat \<Rightarrow> string" where
  "digits n = (if n < 10 then [hexDigit n] else digits (n div 10) @ [hexDigit (n mod 10)])"

definition toString :: "int \<Rightarrow> string" where
  "toString i = (if i < 0 then ''-'' @ digits (nat (- i)) else digits (nat i))"

definition createPublicInputs :: "CreditAssessment \<Rightarrow> string list" where
  "createPublicInputs assessment =
     [toString (finalScore assessment),
      toString (timestamp assessment),
      assessment_address assessment]"

text \<open>
  \<open>generateProof\<close>: the steps inside its \<open>try\<close> have no throwing branch, so the result is
  always a proof; the \<open>catch\<close> would turn any exception into \<open>ProofGenerationError\<close>.
\<close>

definition generateProof :: "crypto_env \<Rightarrow> CreditAssessment \<Rightarrow> error + ZKProof" where
  "generateProof env assessment =
     (let witness = createWitness env 0 assessment;
          proof = runGroth16Prover env 1 witness;
          proofHash = hashProof env proof;
          publicInputs = createPublicInputs assessment
      in Inr \<lparr>proofHash = proofHash,
              publicInputs = publicInputs,
              proof_components = proof\<rparr>)"

text \<open>
  Truthiness in JavaScript: a string is falsy exactly when it is empty; an object or an
  array (also an empty one) is always truthy. The type \<open>ZKProof\<close> has no absent
  component, so the negations \<open>!proof.proof\<close>, \<open>!proof.proof.a\<close>, \<dots> are tests of objects
  and arrays.
\<close>

definition truthy_string :: "string \<Rightarrow> bool" where
  "truthy_string str = (str \<noteq> [])"

definition truthy_object :: "'a \<Rightarrow> bool" where
  "truthy_object x = True"

definition verifyProofLocally :: "ZKProof \<Rightarrow> bool" where
  "verifyProofLocally p =
     (if \<not> truthy_string (proofHash p) \<or> length (proofHash p) = 0 then False
      else if \<not> truthy_object (proof_components p) \<or> \<not> truthy_object (proof_a (proof_components p))
              \<or> \<not> truthy_object (proof_b (proof_components p))
              \<or> \<not> truthy_object (proof_c (proof_components p)) then False
      else if \<not> truthy_object (publicInputs p) \<or> length (publicInputs p) = 0 then False
      else True)"

section \<open>CreditScoreSDK (lib/sdk/CreditScoreSDK.ts)\<close>

record sdk =
  userAddress :: "string option"
  dataAggregator :: aggregator

definition ensureInitialized :: "sdk \<Rightarrow> error + string" where
  "ensureInitialized s =
     (case userAddress s of
        None \<Rightarrow> Inl (SDKError ''SDK not initialized. Call init() first.'' ''NOT_INITIALIZED'')
      | Some addr \<Rightarrow>
          if addr = [] then Inl (SDKError ''SDK not initialized. Call init() first.'' ''NOT_INITIALIZED'')
          else Inr addr)"

text \<open>
  \<open>CreditScoreSDK.fetchWalletMetrics\<close>: fetch through the aggregator, then
  \<open>ScoringEngine.validateMetrics\<close> on what was fetched; either step may throw.
\<close>

definition sdk_fetchWalletMetrics ::
  "rpc_env \<Rightarrow> sdk \<Rightarrow> int \<Rightarrow> (error + WalletMetrics) \<times> sdk" where
  "sdk_fetchWalletMetrics env s now =
     (case ensureInitialized s of
        Inl e \<Rightarrow> (Inl e, s)
      | Inr addr \<Rightarrow>
          (case fetchWalletMetrics env (dataAggregator s) addr now of
             (Inl e, agg) \<Rightarrow> (Inl e, s\<lparr>dataAggregator := agg\<rparr>)
           | (Inr m, agg) \<Rightarrow>
               (case validateMetrics m of
                  Inl e \<Rightarrow> (Inl e, s\<lparr>dataAggregator := agg\<rparr>)
                | Inr u \<Rightarrow> (Inr m, s\<lparr>dataAggregator := agg\<rparr>))))"

text \<open>\<open>CreditScoreSDK.calculateScore\<close> passes its argument to the engine unchecked.\<close>

definition sdk_calculateScore :: "WalletMetrics \<Rightarrow> int \<Rightarrow> CreditAssessment" where
  "sdk_calculateScore m now = calculateScore m now"

text \<open>
  \<open>CreditScoreSDK.generateProof\<close>: generate, then the local verification gate, which
  throws \<open>SDKError\<close> with code \<open>INVALID_PROOF\<close> when the check fails.
\<close>

definition sdk_generateProof :: "crypto_env \<Rightarrow> CreditAssessment \<Rightarrow> error + ZKProof" where
  "sdk_generateProof env assessment =
     (case generateProof env assessment of
        Inl e \<Rightarrow> Inl e
      | Inr proof \<Rightarrow>
          let isValid = verifyProofLocally proof in
          if \<not> isValid then Inl (SDKError ''Proof verification failed'' ''INVALID_PROOF'')
          else Inr proof)"

section \<open>Example inputs\<close>

text \<open>The metrics records of the unit tests of the scoring engine, at time 0.\<close>

definition medium_metrics :: WalletMetrics where
  "medium_metrics =
     \<lparr>address = ''aleo1medium'', transactionCount = 20, walletAgeMonths = 6, defiScore = 40,
      repaymentRate = 80, tokenBalance = 5000, lastTransactionDate = 0\<rparr>"

definition perfect_metrics :: WalletMetrics where
  "perfect_metrics =
     \<lparr>address = ''aleo1perfect'', transactionCount = 50, walletAgeMonths = 24, defiScore = 80,
      repaymentRate = 100, tokenBalance = 100000, lastTransactionDate = 0\<rparr>"

definition negative_count_metrics :: WalletMetrics where
  "negative_count_metrics =
     \<lparr>address = ''aleo1valid'', transactionCount = - 5, walletAgeMonths = 5, defiScore = 50,
      repaymentRate = 80, tokenBalance = 1000, lastTransactionDate = 0\<rparr>"

definition quiet_metrics :: WalletMetrics where
  "quiet_metrics =
     \<lparr>address = ''aleo1quiet'', transactionCount = 5, walletAgeMonths = 2, defiScore = 10,
      repaymentRate = 50, tokenBalance = 0, lastTransactionDate = 0\<rparr>"

text \<open>
  A record in range with a fractional repayment rate, 89.75: its bonuses are 100, 70, 0
  and 29.5, so the capped sum is 499.5. With a rate of 90 in its place the sum is 500.
\<close>

definition fractional_metrics :: WalletMetrics where
  "fractional_metrics =
     \<lparr>address = ''aleo1fraction'', transactionCount = 50, walletAgeMonths = 7, defiScore = 0,
      repaymentRate = 359 / 4, tokenBalance = 0, lastTransactionDate = 0\<rparr>"

definition whole_metrics :: WalletMetrics where
  "whole_metrics = fractional_metrics\<lparr>repaymentRate := 90\<rparr>"

text \<open>
  An initialised SDK with an empty cache, and a network whose five requests succeed
  (no first-seen date in the account information).
\<close>

definition answering_rpc :: rpc_env where
  "answering_rpc =
     \<lparr>ENABLE_MOCK_DATA = False,
      transactions_reply = (\<lambda>addr now. Inr (Some 20)),
      info_reply = (\<lambda>addr now. Inr None),
      defi_reply = (\<lambda>addr now. Inr (Some 40)),
      lending_reply = (\<lambda>addr now. Inr (Some 80)),
      balance_reply = (\<lambda>addr now. Inr (Some 5000))\<rparr>"

definition fetched_metrics :: WalletMetrics where
  "fetched_metrics =
     \<lparr>address = ''aleo1test123'', transactionCount = 20, walletAgeMonths = 0, defiScore = 40,
      repaymentRate = 80, tokenBalance = 5000, lastTransactionDate = 0\<rparr>"

definition fresh_sdk :: sdk where
  "fresh_sdk = \<lparr>userAddress = Some ''aleo1test123'', dataAggregator = new_aggregator\<rparr>"

text \<open>
  The state of the loop when it comes back to its head after one more poll and one more
  sleep, and the error that ends a loop without a confirmation.
\<close>

definition next_poll :: "poll_state \<Rightarrow> poll_state" where
  "next_poll st = (sleep INTERVAL (st\<lparr>polls := polls st + 1\<rparr>))\<lparr>attempts := attempts st + 1\<rparr>"

definition timeout_error :: error where
  "timeout_error = TransactionError ''Transaction confirmation timeout''"

text \<open>
  Ledgers for the examples: one that answers every status request with a failed
  transaction, one that never leaves \<open>pending\<close>, and one whose broadcast request fails
  while the first status request finds the transaction confirmed.
\<close>

definition failing_ledger :: ledger_env where
  "failing_ledger =
     \<lparr>broadcast_reply = (\<lambda>n. Inr ''at1failed''),
      transaction_reply =
        (\<lambda>txId k. Inr \<lparr>tx_id = txId, status = Failed, blockHeight = None, tx_timestamp = None\<rparr>),
      txid_random = (\<lambda>i. 0),
      blockHeight_random = (\<lambda>k. 0),
      score_random = 0,
      clock = (\<lambda>k. 0)\<rparr>"

definition pending_ledger :: ledger_env where
  "pending_ledger =
     \<lparr>broadcast_reply = (\<lambda>n. Inr ''at1pending''),
      transaction_reply =
        (\<lambda>txId k. Inr \<lparr>tx_id = txId, status = Pending, blockHeight = None, tx_timestamp = None\<rparr>),
      txid_random = (\<lambda>i. 0),
      blockHeight_random = (\<lambda>k. 0),
      score_random = 0,
      clock = (\<lambda>k. 0)\<rparr>"

definition rejecting_ledger :: ledger_env where
  "rejecting_ledger =
     \<lparr>broadcast_reply = (\<lambda>n. if n = 0 then Inl (Error ''broadcast rejected'') else Inr ''at1second''),
      transaction_reply =
        (\<lambda>txId k. Inr \<lparr>tx_id = txId, status = Confirmed, blockHeight = Some 7,
                         tx_timestamp = Some 1000\<rparr>),
      txid_random = (\<lambda>i. 0),
      blockHeight_random = (\<lambda>k. 0),
      score_random = 0,
      clock = (\<lambda>k. 0)\<rparr>"

text \<open>
  Two more ledgers: one whose every status request fails, and one that finds the
  transaction pending twice before the third status request fails.
\<close>

definition erroring_ledger :: ledger_env where
  "erroring_ledger =
     \<lparr>broadcast_reply = (\<lambda>n. Inr ''at1lost''),
      transaction_reply = (\<lambda>txId k. Inl (RPCError ''status request failed'')),
      txid_random = (\<lambda>i. 0),
      blockHeight_random = (\<lambda>k. 42),
      score_random = 0,
      clock = (\<lambda>k. 1000)\<rparr>"

definition flaky_ledger :: ledger_env where
  "flaky_ledger =
     \<lparr>broadcast_reply = (\<lambda>n. Inr ''at1flaky''),
      transaction_reply =
        (\<lambda>txId k. if k < 2
           then Inr \<lparr>tx_id = txId, status = Pending, blockHeight = None, tx_timestamp = None\<rparr>
           else Inl (RPCError ''status request failed'')),
      txid_random = (\<lambda>i. 0),
      blockHeight_random = (\<lambda>k. 42),
      score_random = 0,
      clock = (\<lambda>k. 1000 + 500 * int k)\<rparr>"

definition sample_proof :: ZKProof where
  "sample_proof =
     \<lparr>proofHash = ''00ff'',
      publicInputs = [''480'', ''0'', ''aleo1test123''],
      proof_components = \<lparr>proof_a = [''0a'', ''0b''], proof_b = [[''0c'', ''0d''], [''0e'', ''0f'']],
                          proof_c = [''1a'', ''1b'']\<rparr>\<rparr>"

text \<open>
  A random source that returns zero bytes and a stand-in for \<open>sha256\<close> that returns 32
  zero bytes, for the examples of the proof generator.
\<close>

definition zero_crypto :: crypto_env where
  "zero_crypto = \<lparr>getRandomValues = (\<lambda>k i. 0), sha256 = (\<lambda>bs. replicate 32 0)\<rparr>"

text \<open>
  The same network in development mode, where \<open>FEATURES.ENABLE_MOCK_DATA\<close> is set.
\<close>

definition mock_rpc :: rpc_env where
  "mock_rpc = answering_rpc\<lparr>ENABLE_MOCK_DATA := True\<rparr>"

text \<open>
  For the proofs about the cache: the entry that \<open>get\<close> finds for key \<open>k\<close> holds value
  \<open>v\<close> with age started at \<open>start\<close>, and at most \<open>n\<close> entries are in front of it.
\<close>

definition cached_at :: "string \<Rightarrow> 'v \<Rightarrow> int \<Rightarrow> nat \<Rightarrow> 'v lru \<Rightarrow> bool" where
  "cached_at k v start n c =
     (map_of c k = Some (v, start) \<and> length (takeWhile (\<lambda>e. fst e \<noteq> k) c) \<le> n)"

section \<open>Properties of the scoring engine\<close>

lemma calculateTransactionBonus_range:
  "0 \<le> calculateTransactionBonus n \<and> calculateTransactionBonus n \<le> 100"
  by (simp add: calculateTransactionBonus_def TRANSACTION_COUNT_def Let_def)

lemma calculateAgeBonus_range:
  "0 \<le> calculateAgeBonus n \<and> calculateAgeBonus n \<le> 100"
  by (simp add: calculateAgeBonus_def WALLET_AGE_def Let_def)

lemma calculateDeFiBonus_range:
  "0 \<le> calculateDeFiBonus n \<and> calculateDeFiBonus n \<le> 100"
  by (simp add: calculateDeFiBonus_def DEFI_SCORE_def Let_def)

lemma calculateRepaymentBonus_range:
  "0 \<le> calculateRepaymentBonus n \<and> calculateRepaymentBonus n \<le> 150"
  by (simp add: calculateRepaymentBonus_def REPAYMENT_RATE_def Let_def)

lemma calculateTransactionBonus_mono:
  "x \<le> y \<Longrightarrow> calculateTransactionBonus x \<le> calculateTransactionBonus y"
  by (auto simp add: calculateTransactionBonus_def TRANSACTION_COUNT_def Let_def min_def)

lemma calculateAgeBonus_mono:
  "x \<le> y \<Longrightarrow> calculateAgeBonus x \<le> calculateAgeBonus y"
  by (auto simp add: calculateAgeBonus_def WALLET_AGE_def Let_def min_def)

lemma calculateDeFiBonus_mono:
  "x \<le> y \<Longrightarrow> calculateDeFiBonus x \<le> calculateDeFiBonus y"
  by (auto simp add: calculateDeFiBonus_def DEFI_SCORE_def Let_def min_def)

lemma calculateRepaymentBonus_mono:
  "x \<le> y \<Longrightarrow> calculateRepaymentBonus x \<le> calculateRepaymentBonus y"
  by (auto simp add: calculateRepaymentBonus_def REPAYMENT_RATE_def Let_def min_def)

lemma bonus_Ints:
  "x \<in> \<int> \<Longrightarrow> calculateTransactionBonus x \<in> \<int>"
  "x \<in> \<int> \<Longrightarrow> calculateAgeBonus x \<in> \<int>"
  "x \<in> \<int> \<Longrightarrow> calculateDeFiBonus x \<in> \<int>"
  "x \<in> \<int> \<Longrightarrow> calculateRepaymentBonus x \<in> \<int>"
  by (simp_all add: calculateTransactionBonus_def calculateAgeBonus_def calculateDeFiBonus_def
      calculateRepaymentBonus_def TRANSACTION_COUNT_def WALLET_AGE_def DEFI_SCORE_def
      REPAYMENT_RATE_def min_def Let_def)

lemma Math_round_mono: "x \<le> y \<Longrightarrow> Math_round x \<le> Math_round y"
  by (simp add: Math_round_def floor_mono)

lemma Math_round_of_int: "Math_round (of_int n) = n"
  unfolding Math_round_def by (rule floor_unique) simp_all

lemma Math_round_numeral: "Math_round (numeral n) = numeral n"
  using Math_round_of_int [of "numeral n"] by simp

lemma Math_round_Ints: "x \<in> \<int> \<Longrightarrow> of_int (Math_round x) = x"
  by (auto simp add: Ints_def Math_round_of_int)

lemma Math_round_half: "Math_round (of_int n + 1 / 2) = n + 1"
  unfolding Math_round_def by (rule floor_unique) simp_all

lemma finalScore_calculateScore:
  "finalScore (calculateScore m now) =
     Math_round (min 850 (300 + (calculateTransactionBonus (transactionCount m)
       + calculateAgeBonus (walletAgeMonths m)
       + calculateDeFiBonus (defiScore m)
       + calculateRepaymentBonus (repaymentRate m))))"
  by (simp add: calculateScore_def Let_def BASE_SCORE_def MAX_SCORE_def)

lemma bonusPoints_calculateScore:
  "bonusPoints (calculateScore m now) =
     calculateTransactionBonus (transactionCount m)
       + calculateAgeBonus (walletAgeMonths m)
       + calculateDeFiBonus (defiScore m)
       + calculateRepaymentBonus (repaymentRate m)"
  by (simp add: calculateScore_def Let_def)

lemma riskLevel_calculateScore:
  "riskLevel (calculateScore m now) =
     getRiskLevel (min 850 (300 + (calculateTransactionBonus (transactionCount m)
       + calculateAgeBonus (walletAgeMonths m)
       + calculateDeFiBonus (defiScore m)
       + calculateRepaymentBonus (repaymentRate m))))"
  by (simp add: calculateScore_def Let_def BASE_SCORE_def MAX_SCORE_def)

lemma finalScore_mono_bonuses:
  assumes "calculateTransactionBonus (transactionCount m)
      \<le> calculateTransactionBonus (transactionCount m')"
    and "calculateAgeBonus (walletAgeMonths m) \<le> calculateAgeBonus (walletAgeMonths m')"
    and "calculateDeFiBonus (defiScore m) \<le> calculateDeFiBonus (defiScore m')"
    and "calculateRepaymentBonus (repaymentRate m) \<le> calculateRepaymentBonus (repaymentRate m')"
  shows "finalScore (calculateScore m now) \<le> finalScore (calculateScore m' now')"
  unfolding finalScore_calculateScore
  by (intro Math_round_mono min.mono add_mono order_refl assms)

lemma bonus_values:
  "calculateTransactionBonus 50 = 100" "calculateAgeBonus 24 = 100"
  "calculateDeFiBonus 80 = 100" "calculateRepaymentBonus 100 = 50"
  "calculateTransactionBonus 20 = 50" "calculateAgeBonus 6 = 60"
  "calculateDeFiBonus 40 = 60" "calculateRepaymentBonus 80 = 10"
  "calculateTransactionBonus (- 5) = 0" "calculateAgeBonus 5 = 50"
  "calculateDeFiBonus 50 = 90" "calculateAgeBonus 7 = 70" "calculateDeFiBonus 0 = 0"
  "calculateRepaymentBonus (359 / 4) = 59 / 2" "calculateRepaymentBonus 90 = 30"
  by (simp_all add: calculateTransactionBonus_def calculateAgeBonus_def calculateDeFiBonus_def
      calculateRepaymentBonus_def TRANSACTION_COUNT_def WALLET_AGE_def DEFI_SCORE_def
      REPAYMENT_RATE_def)

lemma fractional_fields:
  "address fractional_metrics = ''aleo1fraction''" "transactionCount fractional_metrics = 50"
  "walletAgeMonths fractional_metrics = 7" "defiScore fractional_metrics = 0"
  "repaymentRate fractional_metrics = 359 / 4" "tokenBalance fractional_metrics = 0"
  "address whole_metrics = ''aleo1fraction''" "transactionCount whole_metrics = 50"
  "walletAgeMonths whole_metrics = 7" "defiScore whole_metrics = 0"
  "repaymentRate whole_metrics = 90" "tokenBalance whole_metrics = 0"
  by (simp_all add: fractional_metrics_def whole_metrics_def)

lemma fractional_score:
  "finalScore (calculateScore fractional_metrics now) = 500"
  "bonusPoints (calculateScore fractional_metrics now) = 399 / 2"
  "riskLevel (calculateScore fractional_metrics now) = High"
proof -
  have half: "(999 / 2 :: rat) = of_int 499 + 1 / 2"
    by simp
  show "finalScore (calculateScore fractional_metrics now) = 500"
    by (simp add: finalScore_calculateScore fractional_fields bonus_values)
      (simp only: half Math_round_half)
  show "bonusPoints (calculateScore fractional_metrics now) = 399 / 2"
    by (simp add: bonusPoints_calculateScore fractional_fields bonus_values)
  show "riskLevel (calculateScore fractional_metrics now) = High"
    by (simp add: riskLevel_calculateScore fractional_fields bonus_values getRiskLevel_def
        LOW_minScore_def MEDIUM_minScore_def)
qed

lemma whole_score:
  "finalScore (calculateScore whole_metrics now) = 500"
  "riskLevel (calculateScore whole_metrics now) = Medium"
  by (simp_all add: finalScore_calculateScore riskLevel_calculateScore fractional_fields
      bonus_values getRiskLevel_def LOW_minScore_def MEDIUM_minScore_def Math_round_numeral)

lemma validateMetrics_Inr_iff:
  "validateMetrics m = Inr () \<longleftrightarrow>
     startsWith (address m) ''aleo1'' \<and>
     0 \<le> transactionCount m \<and> 0 \<le> walletAgeMonths m \<and>
     0 \<le> defiScore m \<and> defiScore m \<le> 100 \<and>
     0 \<le> repaymentRate m \<and> repaymentRate m \<le> 100 \<and> 0 \<le> tokenBalance m"
  by (auto simp add: validateMetrics_def startsWith_def)

lemma validateMetrics_Inl:
  "validateMetrics m \<noteq> Inr () \<Longrightarrow> \<exists>msg. validateMetrics m = Inl (Error msg)"
  by (simp add: validateMetrics_def split: if_splits)

lemma sdk_fetchWalletMetrics_validated:
  "sdk_fetchWalletMetrics env s now = (Inr m, s') \<Longrightarrow> validateMetrics m = Inr ()"
  by (auto simp add: sdk_fetchWalletMetrics_def split: sum.splits prod.splits)




lemma getRiskLevel_bands:
  "(s < 500 \<longrightarrow> getRiskLevel s = High) \<and>
   (500 \<le> s \<and> s < 750 \<longrightarrow> getRiskLevel s = Medium) \<and>
   (750 \<le> s \<longrightarrow> getRiskLevel s = Low)"
  by (simp add: getRiskLevel_def LOW_minScore_def MEDIUM_minScore_def)

text \<open>
  When the four scored fields are integers the capped sum is an integer, rounding does
  not change it, and the tier of the assessment is the tier of its \<open>finalScore\<close>.
\<close>

lemma riskLevel_of_whole_fields:
  assumes "transactionCount m \<in> \<int>" and "walletAgeMonths m \<in> \<int>" and "defiScore m \<in> \<int>"
    and "repaymentRate m \<in> \<int>"
  shows "riskLevel (calculateScore m now) = getRiskLevel (of_int (finalScore (calculateScore m now)))"
proof -
  let ?capped = "min 850 (300 + (calculateTransactionBonus (transactionCount m)
             + calculateAgeBonus (walletAgeMonths m)
             + calculateDeFiBonus (defiScore m)
             + calculateRepaymentBonus (repaymentRate m)))"
  from assms have "?capped \<in> \<int>"
    by (simp add: min_def bonus_Ints)
  then have "of_int (Math_round ?capped) = ?capped"
    by (rule Math_round_Ints)
  then show ?thesis
    by (simp only: finalScore_calculateScore riskLevel_calculateScore)
qed

text \<open>
  C2 on the record with \<open>repaymentRate = 89.75\<close>: the tier is computed from the capped sum
  499.5 before \<open>Math.round\<close> makes it the \<open>finalScore\<close> 500, so the assessment has
  \<open>finalScore\<close> 500 with tier high, although the tier of 500 is medium; the record with
  rate 90 has the same \<open>finalScore\<close> 500 with tier medium.
\<close>

theorem riskLevel_before_rounding:
  "validateMetrics fractional_metrics = Inr () \<and>
   finalScore (calculateScore fractional_metrics 0) = 500 \<and>
   riskLevel (calculateScore fractional_metrics 0) = High \<and>
   getRiskLevel 500 = Medium \<and>
   validateMetrics whole_metrics = Inr () \<and>
   finalScore (calculateScore whole_metrics 0) = 500 \<and>
   riskLevel (calculateScore whole_metrics 0) = Medium"
proof -
  have "validateMetrics fractional_metrics = Inr ()" "validateMetrics whole_metrics = Inr ()"
    by (simp_all add: validateMetrics_Inr_iff fractional_fields startsWith_def)
  moreover have "getRiskLevel 500 = Medium"
    by (simp add: getRiskLevel_def LOW_minScore_def MEDIUM_minScore_def)
  ultimately show ?thesis
    by (simp add: fractional_score whole_score)
qed

text \<open>
  C3, as stated, fails: \<open>calculateScore\<close> does not validate. On the record of the unit
  test with \<open>transactionCount = -5\<close>, which \<open>validateMetrics\<close> rejects, it returns an
  assessment (the negative count earns bonus 0, the score is 450), and so does
  \<open>CreditScoreSDK.calculateScore\<close>.
\<close>

theorem calculateScore_unvalidated_counterexample:
  "transactionCount negative_count_metrics < 0 \<and>
   validateMetrics negative_count_metrics = Inl (Error ''Transaction count cannot be negative'') \<and>
   calculateScore negative_count_metrics 0 =
     \<lparr>assessment_address = ''aleo1valid'', metrics = negative_count_metrics, baseScore = 300,
      bonusPoints = 150, finalScore = 450, riskLevel = High, timestamp = 0\<rparr> \<and>
   sdk_calculateScore negative_count_metrics 0 = calculateScore negative_count_metrics 0"
proof -
  have fields: "address negative_count_metrics = ''aleo1valid''"
    "transactionCount negative_count_metrics = - 5" "walletAgeMonths negative_count_metrics = 5"
    "defiScore negative_count_metrics = 50" "repaymentRate negative_count_metrics = 80"
    by (simp_all add: negative_count_metrics_def)
  have "validateMetrics negative_count_metrics = Inl (Error ''Transaction count cannot be negative'')"
    by (simp add: validateMetrics_def fields startsWith_def)
  moreover have "calculateScore negative_count_metrics 0 =
     \<lparr>assessment_address = ''aleo1valid'', metrics = negative_count_metrics, baseScore = 300,
      bonusPoints = 150, finalScore = 450, riskLevel = High, timestamp = 0\<rparr>"
    by (simp add: calculateScore_def fields bonus_values BASE_SCORE_def MAX_SCORE_def
        getRiskLevel_def LOW_minScore_def MEDIUM_minScore_def Math_round_numeral)
  ultimately show ?thesis
    by (simp add: fields sdk_calculateScore_def)
qed

text \<open>
  C3, amended. The rejection of out-of-range metrics is the work of
  \<open>ScoringEngine.validateMetrics\<close>, not of \<open>calculateScore\<close>: it throws an \<open>Error\<close>
  whenever a field is out of its declared range, and it accepts a record exactly when the
  address starts with \<open>aleo1\<close> and every field is in range.
  \<open>CreditScoreSDK.fetchWalletMetrics\<close> runs it on what it fetched, so the metrics it
  returns have passed the validation.
\<close>

theorem validateMetrics_rejects_out_of_range:
  "(transactionCount m < 0 \<or> walletAgeMonths m < 0 \<or> defiScore m < 0 \<or> 100 < defiScore m \<or>
    repaymentRate m < 0 \<or> 100 < repaymentRate m \<or> tokenBalance m < 0
      \<longrightarrow> (\<exists>msg. validateMetrics m = Inl (Error msg))) \<and>
   (validateMetrics m = Inr () \<longleftrightarrow>
      startsWith (address m) ''aleo1'' \<and>
      0 \<le> transactionCount m \<and> 0 \<le> walletAgeMonths m \<and>
      0 \<le> defiScore m \<and> defiScore m \<le> 100 \<and>
      0 \<le> repaymentRate m \<and> repaymentRate m \<le> 100 \<and> 0 \<le> tokenBalance m) \<and>
   (sdk_fetchWalletMetrics env s now = (Inr fetched, s') \<longrightarrow> validateMetrics fetched = Inr ())"
proof (intro conjI impI)
  assume out: "transactionCount m < 0 \<or> walletAgeMonths m < 0 \<or> defiScore m < 0 \<or>
    100 < defiScore m \<or> repaymentRate m < 0 \<or> 100 < repaymentRate m \<or> tokenBalance m < 0"
  then have "validateMetrics m \<noteq> Inr ()"
    by (auto simp add: validateMetrics_Inr_iff)
  then show "\<exists>msg. validateMetrics m = Inl (Error msg)"
    by (rule validateMetrics_Inl)
next
  show "validateMetrics m = Inr () \<longleftrightarrow>
      startsWith (address m) ''aleo1'' \<and>
      0 \<le> transactionCount m \<and> 0 \<le> walletAgeMonths m \<and>
      0 \<le> defiScore m \<and> defiScore m \<le> 100 \<and>
      0 \<le> repaymentRate m \<and> repaymentRate m \<le> 100 \<and> 0 \<le> tokenBalance m"
    by (rule validateMetrics_Inr_iff)
next
  assume "sdk_fetchWalletMetrics env s now = (Inr fetched, s')"
  then show "validateMetrics fetched = Inr ()"
    by (rule sdk_fetchWalletMetrics_validated)
qed

lemma fetchWalletMetrics_answering:
  "fetchWalletMetrics answering_rpc new_aggregator ''aleo1test123'' 0 =
     (Inr fetched_metrics, \<lparr>cache = [(''aleo1test123'', fetched_metrics, 0)]\<rparr>)"
  by (simp add: fetchWalletMetrics_def answering_rpc_def new_aggregator_def startsWith_def
      lru_get_def lru_set_def MAX_CACHE_SIZE_def queryTransactionCount_def
      queryWalletAgeMonths_def queryDeFiScore_def queryRepaymentRate_def queryTokenBalance_def
      or_default_def fetched_metrics_def Let_def)

text \<open>
  The amended C3 at concrete inputs: the record with the negative count is rejected, and
  an SDK that fetches over a network answering in range returns metrics that pass.
\<close>

theorem validateMetrics_rejects_out_of_range_witness:
  "transactionCount negative_count_metrics < 0 \<and>
   (\<exists>msg. validateMetrics negative_count_metrics = Inl (Error msg)) \<and>
   fst (sdk_fetchWalletMetrics answering_rpc fresh_sdk 0) = Inr fetched_metrics \<and>
   validateMetrics fetched_metrics = Inr ()"
proof -
  have neg: "transactionCount negative_count_metrics < 0"
    by (simp add: negative_count_metrics_def)
  have valid: "validateMetrics fetched_metrics = Inr ()"
    by (simp add: validateMetrics_def fetched_metrics_def startsWith_def)
  have fetch: "sdk_fetchWalletMetrics answering_rpc fresh_sdk 0 =
      (Inr fetched_metrics,
       fresh_sdk\<lparr>dataAggregator := \<lparr>cache = [(''aleo1test123'', fetched_metrics, 0)]\<rparr>\<rparr>)"
    by (simp add: sdk_fetchWalletMetrics_def ensureInitialized_def fresh_sdk_def
        fetchWalletMetrics_answering valid)
  from validateMetrics_rejects_out_of_range [of negative_count_metrics answering_rpc fresh_sdk 0
      fetched_metrics "fresh_sdk\<lparr>dataAggregator := \<lparr>cache = [(''aleo1test123'', fetched_metrics, 0)]\<rparr>\<rparr>"]
  show ?thesis
    using neg fetch by simp
qed

text \<open>
  C4. For every metrics record in range, raising one of \<open>transactionCount\<close>,
  \<open>walletAgeMonths\<close>, \<open>defiScore\<close>, \<open>repaymentRate\<close> and keeping the other fields never
  lowers \<open>finalScore\<close>; an input below its threshold earns bonus 0, and no bonus is
  negative.
\<close>

theorem finalScore_monotone:
  assumes "0 \<le> transactionCount m" and "0 \<le> walletAgeMonths m"
    and "0 \<le> defiScore m" and "defiScore m \<le> 100"
    and "0 \<le> repaymentRate m" and "repaymentRate m \<le> 100"
    and "0 \<le> tokenBalance m"
    and "transactionCount m \<le> t" and "walletAgeMonths m \<le> a"
    and "defiScore m \<le> d" and "repaymentRate m \<le> r"
  shows "finalScore (calculateScore m now)
           \<le> finalScore (calculateScore (m\<lparr>transactionCount := t\<rparr>) now') \<and>
         finalScore (calculateScore m now)
           \<le> finalScore (calculateScore (m\<lparr>walletAgeMonths := a\<rparr>) now') \<and>
         finalScore (calculateScore m now)
           \<le> finalScore (calculateScore (m\<lparr>defiScore := d\<rparr>) now') \<and>
         finalScore (calculateScore m now)
           \<le> finalScore (calculateScore (m\<lparr>repaymentRate := r\<rparr>) now') \<and>
         (transactionCount m < 10 \<longrightarrow> calculateTransactionBonus (transactionCount m) = 0) \<and>
         (walletAgeMonths m < 3 \<longrightarrow> calculateAgeBonus (walletAgeMonths m) = 0) \<and>
         (defiScore m < 20 \<longrightarrow> calculateDeFiBonus (defiScore m) = 0) \<and>
         (repaymentRate m < 75 \<longrightarrow> calculateRepaymentBonus (repaymentRate m) = 0) \<and>
         0 \<le> calculateTransactionBonus (transactionCount m) \<and>
         0 \<le> calculateAgeBonus (walletAgeMonths m) \<and>
         0 \<le> calculateDeFiBonus (defiScore m) \<and>
         0 \<le> calculateRepaymentBonus (repaymentRate m)"
proof -
  have below:
    "(transactionCount m < 10 \<longrightarrow> calculateTransactionBonus (transactionCount m) = 0) \<and>
     (walletAgeMonths m < 3 \<longrightarrow> calculateAgeBonus (walletAgeMonths m) = 0) \<and>
     (defiScore m < 20 \<longrightarrow> calculateDeFiBonus (defiScore m) = 0) \<and>
     (repaymentRate m < 75 \<longrightarrow> calculateRepaymentBonus (repaymentRate m) = 0)"
    by (simp add: calculateTransactionBonus_def calculateAgeBonus_def calculateDeFiBonus_def
        calculateRepaymentBonus_def TRANSACTION_COUNT_def WALLET_AGE_def DEFI_SCORE_def
        REPAYMENT_RATE_def)
  have t: "finalScore (calculateScore m now)
      \<le> finalScore (calculateScore (m\<lparr>transactionCount := t\<rparr>) now')"
    using assms(8) by (intro finalScore_mono_bonuses) (simp_all add: calculateTransactionBonus_mono)
  have a: "finalScore (calculateScore m now)
      \<le> finalScore (calculateScore (m\<lparr>walletAgeMonths := a\<rparr>) now')"
    using assms(9) by (intro finalScore_mono_bonuses) (simp_all add: calculateAgeBonus_mono)
  have d: "finalScore (calculateScore m now)
      \<le> finalScore (calculateScore (m\<lparr>defiScore := d\<rparr>) now')"
    using assms(10) by (intro finalScore_mono_bonuses) (simp_all add: calculateDeFiBonus_mono)
  have r: "finalScore (calculateScore m now)
      \<le> finalScore (calculateScore (m\<lparr>repaymentRate := r\<rparr>) now')"
    using assms(11) by (intro finalScore_mono_bonuses) (simp_all add: calculateRepaymentBonus_mono)
  show ?thesis
    using t a d r below calculateTransactionBonus_range [of "transactionCount m"]
      calculateAgeBonus_range [of "walletAgeMonths m"]
      calculateDeFiBonus_range [of "defiScore m"]
      calculateRepaymentBonus_range [of "repaymentRate m"]
    by blast
qed

text \<open>
  The theorem at a record with every input below its threshold (score 300), each field
  raised in turn to the value of the mid-range record.
\<close>

theorem finalScore_monotone_witness:
  "finalScore (calculateScore quiet_metrics 0)
     \<le> finalScore (calculateScore (quiet_metrics\<lparr>transactionCount := 20\<rparr>) 0) \<and>
   finalScore (calculateScore quiet_metrics 0)
     \<le> finalScore (calculateScore (quiet_metrics\<lparr>walletAgeMonths := 6\<rparr>) 0) \<and>
   finalScore (calculateScore quiet_metrics 0)
     \<le> finalScore (calculateScore (quiet_metrics\<lparr>defiScore := 40\<rparr>) 0) \<and>
   finalScore (calculateScore quiet_metrics 0)
     \<le> finalScore (calculateScore (quiet_metrics\<lparr>repaymentRate := 80\<rparr>) 0) \<and>
   calculateTransactionBonus (transactionCount quiet_metrics) = 0 \<and>
   calculateAgeBonus (walletAgeMonths quiet_metrics) = 0 \<and>
   calculateDeFiBonus (defiScore quiet_metrics) = 0 \<and>
   calculateRepaymentBonus (repaymentRate quiet_metrics) = 0"
proof -
  have fields: "transactionCount quiet_metrics = 5" "walletAgeMonths quiet_metrics = 2"
    "defiScore quiet_metrics = 10" "repaymentRate quiet_metrics = 50"
    "tokenBalance quiet_metrics = 0"
    by (simp_all add: quiet_metrics_def)
  from finalScore_monotone [of quiet_metrics 20 6 40 80 0 0]
  show ?thesis
    by (simp add: fields)
qed

text \<open>
  C5 on the saturating record of the unit tests: the four bonuses are 100, 100, 100 and
  50, the total bonus is 350 and the score is \<open>300 + 350 = 650\<close>, below the cap of 850; the
  tier of the assessment is medium, not low.
\<close>

theorem saturating_record_medium:
  "calculateTransactionBonus (transactionCount perfect_metrics) = 100 \<and>
   calculateAgeBonus (walletAgeMonths perfect_metrics) = 100 \<and>
   calculateDeFiBonus (defiScore perfect_metrics) = 100 \<and>
   calculateRepaymentBonus (repaymentRate perfect_metrics) = 50 \<and>
   bonusPoints (calculateScore perfect_metrics 0) = 350 \<and>
   finalScore (calculateScore perfect_metrics 0) = 650 \<and>
   riskLevel (calculateScore perfect_metrics 0) = Medium \<and>
   riskLevel (calculateScore perfect_metrics 0) \<noteq> Low"
proof -
  have fields: "transactionCount perfect_metrics = 50" "walletAgeMonths perfect_metrics = 24"
    "defiScore perfect_metrics = 80" "repaymentRate perfect_metrics = 100"
    by (simp_all add: perfect_metrics_def)
  have score: "finalScore (calculateScore perfect_metrics 0) = 650"
    by (simp add: finalScore_calculateScore fields bonus_values Math_round_numeral)
  have tier: "riskLevel (calculateScore perfect_metrics 0) = Medium"
    by (simp add: riskLevel_calculateScore fields bonus_values getRiskLevel_def
        LOW_minScore_def MEDIUM_minScore_def)
  have bonus: "bonusPoints (calculateScore perfect_metrics 0) = 350"
    by (simp add: bonusPoints_calculateScore fields bonus_values)
  from score tier bonus show ?thesis
    by (simp add: fields bonus_values)
qed

text \<open>
  With both percentages at most 100 the repayment bonus is at most 50, so no score is
  above 650 and no assessment reaches the low tier.
\<close>

lemma in_range_score_at_most_650:
  assumes "defiScore m \<le> 100" and "repaymentRate m \<le> 100"
  shows "finalScore (calculateScore m now) \<le> 650 \<and> riskLevel (calculateScore m now) \<noteq> Low"
proof -
  let ?capped = "min 850 (300 + (calculateTransactionBonus (transactionCount m)
             + calculateAgeBonus (walletAgeMonths m)
             + calculateDeFiBonus (defiScore m)
             + calculateRepaymentBonus (repaymentRate m)))"
  have "calculateRepaymentBonus (repaymentRate m) \<le> 50"
    using assms(2) by (simp add: calculateRepaymentBonus_def REPAYMENT_RATE_def Let_def)
  then have capped: "?capped \<le> of_int 650"
    using calculateTransactionBonus_range [of "transactionCount m"]
      calculateAgeBonus_range [of "walletAgeMonths m"]
      calculateDeFiBonus_range [of "defiScore m"]
    by simp
  have "Math_round ?capped \<le> 650"
    using Math_round_mono [OF capped] by (simp only: Math_round_of_int)
  moreover from capped have "getRiskLevel ?capped \<noteq> Low"
    by (simp add: getRiskLevel_def LOW_minScore_def)
  ultimately show ?thesis
    by (simp only: finalScore_calculateScore riskLevel_calculateScore) simp
qed

section \<open>Properties of the blockchain adapter\<close>

lemma loop_exhausted:
  "\<not> attempts st < MAX_ATTEMPTS \<Longrightarrow> waitForConfirmation_loop q st = (Inl timeout_error, st)"
  by (simp add: waitForConfirmation_loop.simps [of q st] timeout_error_def)

lemma loop_confirmed:
  "attempts st < MAX_ATTEMPTS \<Longrightarrow> poll_try (q (polls st)) = Inr (Some tx) \<Longrightarrow>
   waitForConfirmation_loop q st = (Inr tx, st\<lparr>polls := polls st + 1\<rparr>)"
  by (simp add: waitForConfirmation_loop.simps [of q st] Let_def)

lemma loop_pending:
  "attempts st < MAX_ATTEMPTS \<Longrightarrow> poll_try (q (polls st)) = Inr None \<Longrightarrow>
   waitForConfirmation_loop q st = waitForConfirmation_loop q (next_poll st)"
  by (simp add: waitForConfirmation_loop.simps [of q st] Let_def next_poll_def)

lemma loop_caught_last:
  "attempts st < MAX_ATTEMPTS \<Longrightarrow> poll_try (q (polls st)) = Inl e \<Longrightarrow>
   MAX_ATTEMPTS - 1 \<le> attempts st \<Longrightarrow>
   waitForConfirmation_loop q st = (Inl timeout_error, st\<lparr>polls := polls st + 1\<rparr>)"
  by (simp add: waitForConfirmation_loop.simps [of q st] Let_def timeout_error_def)

lemma loop_caught:
  "attempts st < MAX_ATTEMPTS \<Longrightarrow> poll_try (q (polls st)) = Inl e \<Longrightarrow>
   \<not> MAX_ATTEMPTS - 1 \<le> attempts st \<Longrightarrow>
   waitForConfirmation_loop q st = waitForConfirmation_loop q (next_poll st)"
  by (simp add: waitForConfirmation_loop.simps [of q st] Let_def next_poll_def)

lemma loop_cases [case_names exhausted confirmed pending caught_last caught]:
  assumes "\<And>q st. \<not> attempts st < MAX_ATTEMPTS \<Longrightarrow> P q st"
    and "\<And>q st tx. attempts st < MAX_ATTEMPTS \<Longrightarrow>
           poll_try (q (polls st)) = Inr (Some tx) \<Longrightarrow> P q st"
    and "\<And>q st. attempts st < MAX_ATTEMPTS \<Longrightarrow> poll_try (q (polls st)) = Inr None \<Longrightarrow>
           P q (next_poll st) \<Longrightarrow> P q st"
    and "\<And>q st e. attempts st < MAX_ATTEMPTS \<Longrightarrow> poll_try (q (polls st)) = Inl e \<Longrightarrow>
           MAX_ATTEMPTS - 1 \<le> attempts st \<Longrightarrow> P q st"
    and "\<And>q st e. attempts st < MAX_ATTEMPTS \<Longrightarrow> poll_try (q (polls st)) = Inl e \<Longrightarrow>
           \<not> MAX_ATTEMPTS - 1 \<le> attempts st \<Longrightarrow> P q (next_poll st) \<Longrightarrow> P q st"
  shows "P q st"
proof (induction q st rule: waitForConfirmation_loop.induct)
  case (1 q st)
  show ?case
  proof (cases "attempts st < MAX_ATTEMPTS")
    case False
    then show ?thesis by (rule assms(1))
  next
    case True
    show ?thesis
    proof (cases "poll_try (q (polls st))")
      case (Inl e)
      show ?thesis
      proof (cases "MAX_ATTEMPTS - 1 \<le> attempts st")
        case last: True
        with True Inl show ?thesis by (rule assms(4))
      next
        case False
        from 1(1) [OF True refl Inl False] have "P q (next_poll st)"
          by (simp add: next_poll_def)
        with True Inl False show ?thesis by (rule assms(5))
      qed
    next
      case (Inr r)
      show ?thesis
      proof (cases r)
        case None
        from 1(2) [OF True refl Inr None] have "P q (next_poll st)"
          by (simp add: next_poll_def)
        with True Inr [unfolded None] show ?thesis by (rule assms(3))
      next
        case (Some tx)
        with True Inr show ?thesis by (simp add: assms(2))
      qed
    qed
  qed
qed


lemma loop_polls_bound:
  "polls (snd (waitForConfirmation_loop q st)) \<le> polls st + (MAX_ATTEMPTS - attempts st)"
proof (induction q st rule: loop_cases)
  case (exhausted q st)
  then show ?case by (simp add: loop_exhausted)
next
  case (confirmed q st tx)
  then show ?case by (simp add: loop_confirmed)
next
  case (pending q st)
  then show ?case by (simp add: loop_pending next_poll_def sleep_def)
next
  case (caught_last q st e)
  then show ?case by (simp add: loop_caught_last)
next
  case (caught q st e)
  then show ?case by (simp add: loop_caught next_poll_def sleep_def)
qed

lemma loop_sleeps:
  "sleeps st = replicate (polls st) INTERVAL \<Longrightarrow>
   sleeps (snd (waitForConfirmation_loop q st)) =
     replicate (length (sleeps (snd (waitForConfirmation_loop q st)))) INTERVAL \<and>
   polls (snd (waitForConfirmation_loop q st)) - 1
     \<le> length (sleeps (snd (waitForConfirmation_loop q st))) \<and>
   length (sleeps (snd (waitForConfirmation_loop q st)))
     \<le> polls (snd (waitForConfirmation_loop q st))"
proof (induction q st rule: loop_cases)
  case (exhausted q st)
  then show ?case by (simp add: loop_exhausted)
next
  case (confirmed q st tx)
  then show ?case by (simp add: loop_confirmed)
next
  case (pending q st)
  have "sleeps (next_poll st) = replicate (polls (next_poll st)) INTERVAL"
    using pending.prems by (simp add: next_poll_def sleep_def replicate_append_same)
  with pending show ?case by (simp add: loop_pending)
next
  case (caught_last q st e)
  then show ?case by (simp add: loop_caught_last)
next
  case (caught q st e)
  have "sleeps (next_poll st) = replicate (polls (next_poll st)) INTERVAL"
    using caught.prems by (simp add: next_poll_def sleep_def replicate_append_same)
  with caught show ?case by (simp add: loop_caught)
qed

lemma loop_result:
  "(case fst (waitForConfirmation_loop q st) of
      Inl e \<Rightarrow> e = timeout_error
    | Inr tx \<Rightarrow> status tx = Confirmed \<and> (\<exists>k \<ge> polls st. q k = Inr tx))"
proof (induction q st rule: loop_cases)
  case (exhausted q st)
  then show ?case by (simp add: loop_exhausted)
next
  case (confirmed q st tx)
  then have "q (polls st) = Inr tx \<and> status tx = Confirmed"
    by (auto simp add: poll_try_def split: sum.splits if_splits)
  with confirmed show ?case by (auto simp add: loop_confirmed)
next
  case (pending q st)
  then show ?case
    by (auto simp add: loop_pending next_poll_def sleep_def split: sum.splits intro: Suc_leD)
next
  case (caught_last q st e)
  then show ?case by (simp add: loop_caught_last)
next
  case (caught q st e)
  then show ?case
    by (auto simp add: loop_caught next_poll_def sleep_def split: sum.splits intro: Suc_leD)
qed

lemma loop_unconfirmed:
  "attempts st \<le> MAX_ATTEMPTS \<Longrightarrow>
   (\<And>k tx. polls st \<le> k \<Longrightarrow> k < polls st + (MAX_ATTEMPTS - attempts st) \<Longrightarrow>
      poll_try (q k) \<noteq> Inr (Some tx)) \<Longrightarrow>
   fst (waitForConfirmation_loop q st) = Inl timeout_error \<and>
   polls (snd (waitForConfirmation_loop q st)) = polls st + (MAX_ATTEMPTS - attempts st)"
proof (induction q st rule: loop_cases)
  case (exhausted q st)
  then show ?case by (simp add: loop_exhausted)
next
  case (confirmed q st tx)
  have "poll_try (q (polls st)) \<noteq> Inr (Some tx)"
    using confirmed.hyps(1) by (intro confirmed.prems(2)) simp_all
  with confirmed.hyps(2) show ?case by simp
next
  case (pending q st)
  have "fst (waitForConfirmation_loop q (next_poll st)) = Inl timeout_error \<and>
    polls (snd (waitForConfirmation_loop q (next_poll st))) =
      polls (next_poll st) + (MAX_ATTEMPTS - attempts (next_poll st))"
  proof (rule pending.IH)
    show "attempts (next_poll st) \<le> MAX_ATTEMPTS"
      using pending.hyps by (simp add: next_poll_def sleep_def)
  next
    fix k tx
    assume "polls (next_poll st) \<le> k"
      and "k < polls (next_poll st) + (MAX_ATTEMPTS - attempts (next_poll st))"
    then show "poll_try (q k) \<noteq> Inr (Some tx)"
      using pending.hyps by (intro pending.prems(2)) (simp_all add: next_poll_def sleep_def)
  qed
  with pending.hyps show ?case
    by (simp add: loop_pending next_poll_def sleep_def)
next
  case (caught_last q st e)
  then show ?case by (simp add: loop_caught_last)
next
  case (caught q st e)
  have "fst (waitForConfirmation_loop q (next_poll st)) = Inl timeout_error \<and>
    polls (snd (waitForConfirmation_loop q (next_poll st))) =
      polls (next_poll st) + (MAX_ATTEMPTS - attempts (next_poll st))"
  proof (rule caught.IH)
    show "attempts (next_poll st) \<le> MAX_ATTEMPTS"
      using caught.hyps by (simp add: next_poll_def sleep_def)
  next
    fix k tx
    assume "polls (next_poll st) \<le> k"
      and "k < polls (next_poll st) + (MAX_ATTEMPTS - attempts (next_poll st))"
    then show "poll_try (q k) \<noteq> Inr (Some tx)"
      using caught.hyps by (intro caught.prems(2)) (simp_all add: next_poll_def sleep_def)
  qed
  with caught.hyps show ?case
    by (simp add: loop_caught next_poll_def sleep_def)
qed
lemma loop_polls_mono:
  "polls st \<le> polls (snd (waitForConfirmation_loop q st))"
proof (induction q st rule: loop_cases)
  case (exhausted q st)
  then show ?case by (simp add: loop_exhausted)
next
  case (confirmed q st tx)
  then show ?case by (simp add: loop_confirmed)
next
  case (pending q st)
  then show ?case by (simp add: loop_pending next_poll_def sleep_def)
next
  case (caught_last q st e)
  then show ?case by (simp add: loop_caught_last)
next
  case (caught q st e)
  then show ?case by (simp add: loop_caught next_poll_def sleep_def)
qed

lemma loop_polls_first:
  assumes "attempts st < MAX_ATTEMPTS"
  shows "polls st < polls (snd (waitForConfirmation_loop q st))"
proof (cases "poll_try (q (polls st))")
  case (Inl e)
  show ?thesis
  proof (cases "MAX_ATTEMPTS - 1 \<le> attempts st")
    case True
    with assms Inl show ?thesis by (simp add: loop_caught_last)
  next
    case False
    with assms Inl loop_polls_mono [where q = q and st = "next_poll st"] show ?thesis
      by (simp add: loop_caught next_poll_def sleep_def)
  qed
next
  case (Inr r)
  show ?thesis
  proof (cases r)
    case None
    with assms Inr loop_polls_mono [where q = q and st = "next_poll st"] show ?thesis
      by (simp add: loop_pending next_poll_def sleep_def)
  next
    case (Some tx)
    with assms Inr show ?thesis by (simp add: loop_confirmed)
  qed
qed

lemma poll_start_fields:
  "attempts poll_start = 0" "polls poll_start = 0" "sleeps poll_start = []"
  by (simp_all add: poll_start_def)

lemma loop_pending_prefix:
  assumes "attempts st + j \<le> MAX_ATTEMPTS"
    and "\<And>i. i < j \<Longrightarrow> poll_try (q (polls st + i)) = Inr None"
  shows "waitForConfirmation_loop q st =
    waitForConfirmation_loop q
      \<lparr>attempts = attempts st + j, polls = polls st + j,
       sleeps = sleeps st @ replicate j INTERVAL\<rparr>"
  using assms
proof (induction j arbitrary: st)
  case 0
  then show ?case by (cases st) simp
next
  case (Suc j)
  from Suc.prems(1) have running: "attempts st < MAX_ATTEMPTS"
    by simp
  from Suc.prems(2) [of 0] have "poll_try (q (polls st)) = Inr None"
    by simp
  with running have "waitForConfirmation_loop q st = waitForConfirmation_loop q (next_poll st)"
    by (rule loop_pending)
  also have "\<dots> = waitForConfirmation_loop q
      \<lparr>attempts = attempts (next_poll st) + j, polls = polls (next_poll st) + j,
       sleeps = sleeps (next_poll st) @ replicate j INTERVAL\<rparr>"
  proof (rule Suc.IH)
    show "attempts (next_poll st) + j \<le> MAX_ATTEMPTS"
      using Suc.prems(1) by (simp add: next_poll_def sleep_def)
  next
    fix i
    assume "i < j"
    with Suc.prems(2) [of "Suc i"] show "poll_try (q (polls (next_poll st) + i)) = Inr None"
      by (simp add: next_poll_def sleep_def)
  qed
  finally show ?case
    by (simp add: next_poll_def sleep_def replicate_append_same)
qed

lemma broadcastTransaction_sent:
  "snd (broadcastTransaction env sent t) = sent + 1"
  by (simp add: broadcastTransaction_def split: sum.splits)

lemma submitProof_traced_with:
  assumes "broadcastTransaction env 0 (buildTransaction c p u k) = (txId, sent)"
  shows "submitProof_traced env c p u k =
     (case fst (waitForConfirmation env txId) of
        Inr confirmedTx \<Rightarrow>
          \<lparr>success = True,
           transactionId = txId,
           creditRecord = Some (extractCreditRecord env
             (polls (snd (waitForConfirmation env txId))) confirmedTx u),
           error_message = None\<rparr>
      | Inl e \<Rightarrow>
          \<lparr>success = False, transactionId = [], creditRecord = None,
           error_message = Some (message e)\<rparr>,
      \<lparr>broadcast_requests = sent, polled_txId = txId,
       polling = snd (waitForConfirmation env txId)\<rparr>)"
  by (cases "waitForConfirmation env txId")
    (simp add: submitProof_traced_def assms Let_def split: sum.splits)

lemma waitForConfirmation_result:
  "(case fst (waitForConfirmation env txId) of
      Inl e \<Rightarrow> e = timeout_error
    | Inr tx \<Rightarrow> status tx = Confirmed)"
  using loop_result [where q = "\<lambda>k. Inr (queryTransaction env txId k)" and st = poll_start]
  by (auto simp add: waitForConfirmation_def split: sum.splits)

lemma waitForConfirmation_all_pending:
  assumes "\<And>k. k < 20 \<Longrightarrow> \<exists>tx. transaction_reply env txId k = Inr tx \<and> status tx = Pending"
  shows "waitForConfirmation env txId =
    (Inl (TransactionError ''Transaction confirmation timeout''),
     \<lparr>attempts = 20, polls = 20, sleeps = replicate 20 500\<rparr>)"
proof -
  let ?q = "\<lambda>k. Inr (queryTransaction env txId k)"
  have "poll_try (?q (polls poll_start + i)) = Inr None" if "i < 20" for i
    using assms [OF that]
    by (auto simp add: poll_try_def queryTransaction_def poll_start_fields)
  then have "waitForConfirmation_loop ?q poll_start =
      waitForConfirmation_loop ?q
        \<lparr>attempts = attempts poll_start + 20, polls = polls poll_start + 20,
         sleeps = sleeps poll_start @ replicate 20 INTERVAL\<rparr>"
    by (intro loop_pending_prefix) (simp_all add: poll_start_fields MAX_ATTEMPTS_def)
  then show ?thesis
    by (simp add: waitForConfirmation_def poll_start_fields loop_exhausted MAX_ATTEMPTS_def
        INTERVAL_def timeout_error_def)
qed

lemma waitForConfirmation_request_error:
  assumes "j < 20"
    and "\<And>k. k < j \<Longrightarrow> \<exists>tx. transaction_reply env txId k = Inr tx \<and> status tx = Pending"
    and "transaction_reply env txId j = Inl e"
  shows "waitForConfirmation env txId =
    (Inr \<lparr>tx_id = txId, status = Confirmed, blockHeight = Some (blockHeight_random env j),
          tx_timestamp = Some (clock env j)\<rparr>,
     \<lparr>attempts = j, polls = j + 1, sleeps = replicate j 500\<rparr>)"
proof -
  let ?q = "\<lambda>k. Inr (queryTransaction env txId k)"
  let ?st = "\<lparr>attempts = attempts poll_start + j, polls = polls poll_start + j,
         sleeps = sleeps poll_start @ replicate j INTERVAL\<rparr>"
  have "poll_try (?q (polls poll_start + i)) = Inr None" if "i < j" for i
    using assms(2) [OF that]
    by (auto simp add: poll_try_def queryTransaction_def poll_start_fields)
  then have "waitForConfirmation_loop ?q poll_start = waitForConfirmation_loop ?q ?st"
    using assms(1) by (intro loop_pending_prefix) (simp_all add: poll_start_fields MAX_ATTEMPTS_def)
  moreover have "poll_try (?q (polls ?st)) =
      Inr (Some \<lparr>tx_id = txId, status = Confirmed, blockHeight = Some (blockHeight_random env j),
          tx_timestamp = Some (clock env j)\<rparr>)"
    using assms(3) by (simp add: poll_try_def queryTransaction_def poll_start_fields)
  moreover have "attempts ?st < MAX_ATTEMPTS"
    using assms(1) by (simp add: poll_start_fields MAX_ATTEMPTS_def)
  ultimately show ?thesis
    by (simp add: waitForConfirmation_def loop_confirmed poll_start_fields INTERVAL_def)
qed

text \<open>
  C8, as stated, fails for polls that error: \<open>queryTransaction\<close> catches the error of a
  status request and returns a mock confirmed transaction, so on a ledger whose status
  requests fail the wait ends at the first poll with that transaction; the attempt is
  not counted and nothing is slept.
\<close>

theorem erroring_poll_counterexample:
  "transaction_reply erroring_ledger ''at1lost'' 0 = Inl (RPCError ''status request failed'') \<and>
   waitForConfirmation erroring_ledger ''at1lost'' =
     (Inr \<lparr>tx_id = ''at1lost'', status = Confirmed, blockHeight = Some 42,
           tx_timestamp = Some 1000\<rparr>,
      \<lparr>attempts = 0, polls = 1, sleeps = []\<rparr>)"
proof -
  have failed: "transaction_reply erroring_ledger ''at1lost'' 0
      = Inl (RPCError ''status request failed'')"
    by (simp add: erroring_ledger_def)
  have "waitForConfirmation erroring_ledger ''at1lost'' =
    (Inr \<lparr>tx_id = ''at1lost'', status = Confirmed,
          blockHeight = Some (blockHeight_random erroring_ledger 0),
          tx_timestamp = Some (clock erroring_ledger 0)\<rparr>,
     \<lparr>attempts = 0, polls = 0 + 1, sleeps = replicate 0 500\<rparr>)"
    using failed by (intro waitForConfirmation_request_error) simp_all
  with failed show ?thesis
    by (simp add: erroring_ledger_def)
qed

text \<open>
  C8, amended. \<open>waitForConfirmation\<close> makes at most 20 status polls and sleeps 500 ms
  after a poll and before the next one, and no other duration; when it returns, it
  returns a confirmed transaction, never nothing; when the transaction is still pending
  at each of the 20 polls, it ends after exactly 20 polls with the error "Transaction
  confirmation timeout" (a \<open>TransactionError\<close>). A status request that errors does not
  count toward the ceiling: after \<open>j\<close> pending polls the failed request is answered with a
  mock confirmed transaction, and the wait ends at that poll with it.
\<close>

theorem waitForConfirmation_ceiling:
  "polls (snd (waitForConfirmation env txId)) \<le> 20 \<and>
   sleeps (snd (waitForConfirmation env txId)) =
     replicate (length (sleeps (snd (waitForConfirmation env txId)))) 500 \<and>
   polls (snd (waitForConfirmation env txId)) - 1
     \<le> length (sleeps (snd (waitForConfirmation env txId))) \<and>
   length (sleeps (snd (waitForConfirmation env txId)))
     \<le> polls (snd (waitForConfirmation env txId)) \<and>
   (case fst (waitForConfirmation env txId) of
      Inr tx \<Rightarrow> status tx = Confirmed
    | Inl err \<Rightarrow> True) \<and>
   ((\<forall>k<20. \<exists>tx. transaction_reply env txId k = Inr tx \<and> status tx = Pending) \<longrightarrow>
      waitForConfirmation env txId =
        (Inl (TransactionError ''Transaction confirmation timeout''),
         \<lparr>attempts = 20, polls = 20, sleeps = replicate 20 500\<rparr>)) \<and>
   (j < 20 \<and> (\<forall>k<j. \<exists>tx. transaction_reply env txId k = Inr tx \<and> status tx = Pending) \<and>
    transaction_reply env txId j = Inl e \<longrightarrow>
      waitForConfirmation env txId =
        (Inr \<lparr>tx_id = txId, status = Confirmed, blockHeight = Some (blockHeight_random env j),
              tx_timestamp = Some (clock env j)\<rparr>,
         \<lparr>attempts = j, polls = j + 1, sleeps = replicate j 500\<rparr>))"
proof -
  let ?q = "\<lambda>k. Inr (queryTransaction env txId k)"
  have bound: "polls (snd (waitForConfirmation env txId)) \<le> 20"
    using loop_polls_bound [where q = ?q and st = poll_start]
    by (simp add: waitForConfirmation_def poll_start_fields MAX_ATTEMPTS_def)
  have slept: "sleeps (snd (waitForConfirmation env txId)) =
      replicate (length (sleeps (snd (waitForConfirmation env txId)))) 500 \<and>
    polls (snd (waitForConfirmation env txId)) - 1
      \<le> length (sleeps (snd (waitForConfirmation env txId))) \<and>
    length (sleeps (snd (waitForConfirmation env txId)))
      \<le> polls (snd (waitForConfirmation env txId))"
    using loop_sleeps [where q = ?q and st = poll_start]
    by (simp add: waitForConfirmation_def poll_start_fields INTERVAL_def)
  have returned: "(case fst (waitForConfirmation env txId) of
      Inr tx \<Rightarrow> status tx = Confirmed
    | Inl err \<Rightarrow> True)"
    using waitForConfirmation_result [of env txId] by (simp split: sum.splits)
  have pending: "(\<forall>k<20. \<exists>tx. transaction_reply env txId k = Inr tx \<and> status tx = Pending) \<longrightarrow>
      waitForConfirmation env txId =
        (Inl (TransactionError ''Transaction confirmation timeout''),
         \<lparr>attempts = 20, polls = 20, sleeps = replicate 20 500\<rparr>)"
    using waitForConfirmation_all_pending [of env txId] by blast
  have errored: "j < 20 \<and>
    (\<forall>k<j. \<exists>tx. transaction_reply env txId k = Inr tx \<and> status tx = Pending) \<and>
    transaction_reply env txId j = Inl e \<longrightarrow>
      waitForConfirmation env txId =
        (Inr \<lparr>tx_id = txId, status = Confirmed, blockHeight = Some (blockHeight_random env j),
              tx_timestamp = Some (clock env j)\<rparr>,
         \<lparr>attempts = j, polls = j + 1, sleeps = replicate j 500\<rparr>)"
    using waitForConfirmation_request_error [of j env txId e] by blast
  from bound slept returned pending errored show ?thesis
    by blast
qed

text \<open>
  The amended C8 on the ledger that keeps the transaction pending, and on the ledger
  whose third status request fails after two pending polls.
\<close>

theorem waitForConfirmation_ceiling_witness:
  "waitForConfirmation pending_ledger ''at1pending'' =
     (Inl (TransactionError ''Transaction confirmation timeout''),
      \<lparr>attempts = 20, polls = 20, sleeps = replicate 20 500\<rparr>) \<and>
   waitForConfirmation flaky_ledger ''at1flaky'' =
     (Inr \<lparr>tx_id = ''at1flaky'', status = Confirmed, blockHeight = Some 42,
           tx_timestamp = Some 2000\<rparr>,
      \<lparr>attempts = 2, polls = 3, sleeps = [500, 500]\<rparr>)"
proof -
  have pending: "\<forall>k<20. \<exists>tx. transaction_reply pending_ledger ''at1pending'' k = Inr tx \<and>
      status tx = Pending"
    by (simp add: pending_ledger_def)
  have flaky: "(2::nat) < 20 \<and>
      (\<forall>k<2. \<exists>tx. transaction_reply flaky_ledger ''at1flaky'' k = Inr tx \<and> status tx = Pending) \<and>
      transaction_reply flaky_ledger ''at1flaky'' 2 = Inl (RPCError ''status request failed'')"
    by (simp add: flaky_ledger_def)
  have readings: "blockHeight_random flaky_ledger 2 = 42" "clock flaky_ledger 2 = 2000"
    "replicate 2 (500::nat) = [500, 500]"
    by (simp_all add: flaky_ledger_def numeral_2_eq_2)
  from waitForConfirmation_ceiling [of pending_ledger "''at1pending''"] pending
  have first: "waitForConfirmation pending_ledger ''at1pending'' =
     (Inl (TransactionError ''Transaction confirmation timeout''),
      \<lparr>attempts = 20, polls = 20, sleeps = replicate 20 500\<rparr>)"
    by blast
  from waitForConfirmation_ceiling [of flaky_ledger "''at1flaky''" 2
      "RPCError ''status request failed''"] flaky
  have "waitForConfirmation flaky_ledger ''at1flaky'' =
     (Inr \<lparr>tx_id = ''at1flaky'', status = Confirmed,
           blockHeight = Some (blockHeight_random flaky_ledger 2),
           tx_timestamp = Some (clock flaky_ledger 2)\<rparr>,
      \<lparr>attempts = 2, polls = 2 + 1, sleeps = replicate 2 500\<rparr>)"
    by blast
  with first show ?thesis
    by (simp add: readings)
qed

text \<open>
  C6 on the ledger that answers every status poll with a failed transaction: the
  \<open>throw\<close> of "Transaction failed on-chain" sits inside the \<open>try\<close> whose \<open>catch\<close>
  counts the attempt and goes on polling, so the wait ends after 20 polls with the timeout
  error, and \<open>submitProof\<close> reports that message.
\<close>

theorem failed_status_ends_in_timeout:
  "status (queryTransaction failing_ledger ''at1failed'' 0) = Failed \<and>
   fst (waitForConfirmation failing_ledger ''at1failed'')
     = Inl (TransactionError ''Transaction confirmation timeout'') \<and>
   polls (snd (waitForConfirmation failing_ledger ''at1failed'')) = 20 \<and>
   submitProof failing_ledger ''credit_score.aleo'' sample_proof ''aleo1test123'' ''APrivateKey1test'' =
     \<lparr>success = False, transactionId = [], creditRecord = None,
      error_message = Some ''Transaction confirmation timeout''\<rparr>"
proof -
  have failed: "status (queryTransaction failing_ledger txId k) = Failed" for txId k
    by (simp add: queryTransaction_def failing_ledger_def)
  have "poll_try (Inr (queryTransaction failing_ledger txId k)) \<noteq> Inr (Some tx)" for txId k tx
    by (simp add: poll_try_def failed)
  then have run: "fst (waitForConfirmation failing_ledger txId) = Inl timeout_error \<and>
     polls (snd (waitForConfirmation failing_ledger txId)) = 20" for txId
    using loop_unconfirmed [where q = "\<lambda>k. Inr (queryTransaction failing_ledger txId k)" and st = poll_start]
    by (simp add: waitForConfirmation_def poll_start_fields MAX_ATTEMPTS_def)
  have sent: "broadcastTransaction failing_ledger 0 t = (''at1failed'', 1)" for t
    by (simp add: broadcastTransaction_def failing_ledger_def)
  have "submitProof failing_ledger ''credit_score.aleo'' sample_proof ''aleo1test123'' ''APrivateKey1test'' =
     \<lparr>success = False, transactionId = [], creditRecord = None,
      error_message = Some ''Transaction confirmation timeout''\<rparr>"
    using run [of "''at1failed''"]
    by (cases "waitForConfirmation failing_ledger ''at1failed''")
      (simp add: submitProof_def submitProof_traced_with [OF sent] timeout_error_def)
  with run [of "''at1failed''"] failed show ?thesis
    by (simp add: timeout_error_def)
qed

lemma failed_on_chain_never_raised:
  "fst (waitForConfirmation env txId) \<noteq> Inl (TransactionError ''Transaction failed on-chain'')"
  using waitForConfirmation_result [of env txId]
  by (auto simp add: timeout_error_def split: sum.splits)

lemma length_bytesToHex: "length (bytesToHex bs) = 2 * length bs"
  by (induction bs) (simp_all add: bytesToHex_def byteToHex_def)

lemma hexDigit_hex: "hexDigit n \<in> set hex_alphabet"
  unfolding hexDigit_def by (rule nth_mem) (simp add: hex_alphabet_def)

lemma set_bytesToHex: "set (bytesToHex bs) \<subseteq> set hex_alphabet"
  by (auto simp add: bytesToHex_def byteToHex_def hexDigit_hex)

lemma generateMockTxId_shape:
  "take 3 (generateMockTxId env) = ''at1'' \<and> length (generateMockTxId env) = 67 \<and>
   set (drop 3 (generateMockTxId env)) \<subseteq> set ''0123456789abcdef''"
  using set_bytesToHex [of "randomBytes32 (txid_random env)"]
  by (simp add: generateMockTxId_def length_bytesToHex randomBytes32_def hex_alphabet_def)

lemma generateMockTxId_zero:
  "txid_random env = (\<lambda>i. 0) \<Longrightarrow> generateMockTxId env =
     ''at10000000000000000000000000000000000000000000000000000000000000000''"
  by (simp add: generateMockTxId_def randomBytes32_def bytesToHex_def byteToHex_def hexDigit_def
      hex_alphabet_def upt_rec)

text \<open>
  C7, as stated, fails: on a ledger whose broadcast request fails, \<open>submitProof\<close> reports
  success with a mock transaction id, after one status poll made for that id.
\<close>

theorem broadcast_failure_counterexample:
  "broadcast_reply rejecting_ledger 0 = Inl (Error ''broadcast rejected'') \<and>
   submitProof rejecting_ledger ''credit_score.aleo'' sample_proof ''aleo1test123'' ''APrivateKey1test'' =
     \<lparr>success = True,
      transactionId = ''at10000000000000000000000000000000000000000000000000000000000000000'',
      creditRecord = Some \<lparr>owner = ''aleo1test123'', score = 300, score_threshold = 300,
                            issuedBlock = 7, issuedAt = 1000\<rparr>,
      error_message = None\<rparr> \<and>
   polls (polling (snd (submitProof_traced rejecting_ledger ''credit_score.aleo'' sample_proof
     ''aleo1test123'' ''APrivateKey1test''))) = 1"
proof -
  let ?id = "''at10000000000000000000000000000000000000000000000000000000000000000''"
  have rejected: "broadcast_reply rejecting_ledger 0 = Inl (Error ''broadcast rejected'')"
    by (simp add: rejecting_ledger_def)
  have "generateMockTxId rejecting_ledger = ?id"
    by (rule generateMockTxId_zero) (simp add: rejecting_ledger_def)
  then have mock: "broadcastTransaction rejecting_ledger 0 t = (?id, 1)" for t
    by (simp add: broadcastTransaction_def rejected)
  have poll: "poll_try (Inr (queryTransaction rejecting_ledger txId 0)) =
      Inr (Some \<lparr>tx_id = txId, status = Confirmed, blockHeight = Some 7, tx_timestamp = Some 1000\<rparr>)"
    for txId
    by (simp add: poll_try_def queryTransaction_def rejecting_ledger_def)
  have wait: "waitForConfirmation rejecting_ledger txId =
      (Inr \<lparr>tx_id = txId, status = Confirmed, blockHeight = Some 7, tx_timestamp = Some 1000\<rparr>,
       poll_start\<lparr>polls := 1\<rparr>)" for txId
    using loop_confirmed [where st = poll_start
        and q = "\<lambda>k. Inr (queryTransaction rejecting_ledger txId k)", OF _ ]
    by (simp add: waitForConfirmation_def poll_start_fields MAX_ATTEMPTS_def poll)
  have issued: "extractCreditRecord rejecting_ledger n
      \<lparr>tx_id = txId, status = Confirmed, blockHeight = Some 7, tx_timestamp = Some 1000\<rparr> u =
      \<lparr>owner = u, score = 300, score_threshold = 300, issuedBlock = 7, issuedAt = 1000\<rparr>"
    for n txId u
    by (simp add: extractCreditRecord_def or_default_def rejecting_ledger_def)
  show ?thesis
    by (simp add: rejected submitProof_def submitProof_traced_with [OF mock] wait issued
        poll_start_fields)
qed

text \<open>
  C7, amended. When the broadcast request fails, \<open>broadcastTransaction\<close> does not
  report it: it returns a mock transaction id (\<open>at1\<close> and 64 hexadecimal digits).
  \<open>submitProof\<close> sends the broadcast request once, whatever a second request would
  answer, and goes on to the confirmation polling with that mock id: it is the id it polls
  for, at least one status poll is made, and its result is built from the outcome of that
  polling, as if the broadcast had answered with the mock id.
\<close>

theorem broadcast_failure_replaced_by_mock_id:
  assumes "broadcast_reply env 0 = Inl e"
  shows "fst (broadcastTransaction env 0 (buildTransaction c p u k)) = generateMockTxId env \<and>
         take 3 (generateMockTxId env) = ''at1'' \<and> length (generateMockTxId env) = 67 \<and>
         set (drop 3 (generateMockTxId env)) \<subseteq> set ''0123456789abcdef'' \<and>
         broadcast_requests (snd (submitProof_traced env c p u k)) = 1 \<and>
         polled_txId (snd (submitProof_traced env c p u k)) = generateMockTxId env \<and>
         polling (snd (submitProof_traced env c p u k))
           = snd (waitForConfirmation env (generateMockTxId env)) \<and>
         1 \<le> polls (polling (snd (submitProof_traced env c p u k))) \<and>
         submitProof env c p u k =
           (case fst (waitForConfirmation env (generateMockTxId env)) of
              Inr confirmedTx \<Rightarrow>
                \<lparr>success = True,
                 transactionId = generateMockTxId env,
                 creditRecord = Some (extractCreditRecord env
                   (polls (snd (waitForConfirmation env (generateMockTxId env)))) confirmedTx u),
                 error_message = None\<rparr>
            | Inl err \<Rightarrow>
                \<lparr>success = False, transactionId = [], creditRecord = None,
                 error_message = Some (message err)\<rparr>)"
proof -
  have mock: "broadcastTransaction env 0 (buildTransaction c p u k) = (generateMockTxId env, 1)"
    using assms by (simp add: broadcastTransaction_def)
  have polled: "1 \<le> polls (snd (waitForConfirmation env (generateMockTxId env)))"
    using loop_polls_first [where st = poll_start
        and q = "\<lambda>k. Inr (queryTransaction env (generateMockTxId env) k)"]
    by (simp add: waitForConfirmation_def poll_start_fields MAX_ATTEMPTS_def)
  from polled generateMockTxId_shape [of env] show ?thesis
    by (simp add: mock submitProof_def submitProof_traced_with [OF mock])
qed

text \<open>
  The amended C7 on the ledger whose first broadcast request fails and whose second
  would have answered with the id \<open>at1second\<close>.
\<close>

theorem broadcast_failure_replaced_by_mock_id_witness:
  "broadcast_reply rejecting_ledger 0 = Inl (Error ''broadcast rejected'') \<and>
   broadcast_reply rejecting_ledger 1 = Inr ''at1second'' \<and>
   broadcast_requests (snd (submitProof_traced rejecting_ledger ''credit_score.aleo'' sample_proof
     ''aleo1test123'' ''APrivateKey1test'')) = 1 \<and>
   polled_txId (snd (submitProof_traced rejecting_ledger ''credit_score.aleo'' sample_proof
     ''aleo1test123'' ''APrivateKey1test'')) = generateMockTxId rejecting_ledger \<and>
   1 \<le> polls (polling (snd (submitProof_traced rejecting_ledger ''credit_score.aleo'' sample_proof
     ''aleo1test123'' ''APrivateKey1test'')))"
proof -
  have rejected: "broadcast_reply rejecting_ledger 0 = Inl (Error ''broadcast rejected'')"
    and second: "broadcast_reply rejecting_ledger 1 = Inr ''at1second''"
    by (simp_all add: rejecting_ledger_def)
  from broadcast_failure_replaced_by_mock_id [OF rejected] rejected second show ?thesis
    by blast
qed

text \<open>
  A successful submission carries the issued record, owned by the submitting address,
  and the transaction id of the broadcast step.
\<close>

lemma submitProof_success_record:
  assumes "success (submitProof env c p u k)"
  shows "\<exists>r. creditRecord (submitProof env c p u k) = Some r \<and> owner r = u \<and>
    transactionId (submitProof env c p u k)
      = fst (broadcastTransaction env 0 (buildTransaction c p u k))"
  using assms
  by (cases "broadcastTransaction env 0 (buildTransaction c p u k)")
    (auto simp add: submitProof_def submitProof_traced_with extractCreditRecord_def
      split: sum.splits)

section \<open>Properties of the data aggregator\<close>

lemma hashAddress_test: "hashAddress ''aleo1test123'' = 222247900"
  by code_simp

lemma map_of_lru_delete: "b \<noteq> k \<Longrightarrow> map_of (lru_delete c b) k = map_of c k"
  by (induction c) (auto simp add: lru_delete_def)

lemma takeWhile_lru_delete:
  "b \<noteq> k \<Longrightarrow> length (takeWhile (\<lambda>e. fst e \<noteq> k) (lru_delete c b))
     \<le> length (takeWhile (\<lambda>e. fst e \<noteq> k) c)"
  by (induction c) (auto simp add: lru_delete_def)

lemma cached_at_lru_delete:
  "b \<noteq> k \<Longrightarrow> cached_at k v s n c \<Longrightarrow> cached_at k v s n (lru_delete c b)"
  using takeWhile_lru_delete [of b k c]
  by (simp add: cached_at_def map_of_lru_delete)

lemma cached_at_Cons:
  "b \<noteq> k \<Longrightarrow> cached_at k v s n c \<Longrightarrow> cached_at k v s (Suc n) ((b, w, t) # c)"
  by (simp add: cached_at_def)

lemma cached_at_mono: "cached_at k v s n c \<Longrightarrow> n \<le> n' \<Longrightarrow> cached_at k v s n' c"
  by (simp add: cached_at_def)

lemma cached_at_butlast:
  "cached_at k v s n c \<Longrightarrow> Suc n < length c \<Longrightarrow> cached_at k v s n (butlast c)"
proof (induction c arbitrary: n)
  case Nil
  then show ?case by simp
next
  case (Cons e c)
  show ?case
  proof (cases "fst e = k")
    case True
    with Cons.prems show ?thesis
      by (cases e) (auto simp add: cached_at_def)
  next
    case False
    with Cons.prems obtain n' where n: "n = Suc n'"
      by (cases n) (auto simp add: cached_at_def)
    with Cons.prems False have "cached_at k v s n' c" and "Suc n' < length c"
      by (cases e; auto simp add: cached_at_def)+
    then have "cached_at k v s n' (butlast c)"
      by (rule Cons.IH)
    with False n Cons.prems show ?thesis
      by (cases e) (auto simp add: cached_at_def)
  qed
qed


lemma cached_at_lru_get:
  assumes "b \<noteq> k" and "cached_at k v s n c"
  shows "cached_at k v s (Suc n) (snd (lru_get ttl c b now))"
proof (cases "map_of c b")
  case None
  with assms(2) show ?thesis
    by (simp add: lru_get_def cached_at_mono)
next
  case (Some entry)
  obtain w start where entry: "entry = (w, start)"
    by (cases entry)
  from assms have deleted: "cached_at k v s n (lru_delete c b)"
    by (rule cached_at_lru_delete)
  show ?thesis
  proof (cases "now - start > ttl")
    case True
    with Some entry deleted show ?thesis
      by (simp add: lru_get_def cached_at_mono)
  next
    case False
    with Some entry cached_at_Cons [OF assms(1) deleted] show ?thesis
      by (simp add: lru_get_def)
  qed
qed

lemma lru_get_miss:
  assumes "lru_get ttl c b now = (None, c')"
  shows "map_of c' b = None"
proof (cases "map_of c b")
  case None
  with assms show ?thesis by (simp add: lru_get_def)
next
  case (Some entry)
  have "map_of (lru_delete c b) b = None"
    by (induction c) (auto simp add: lru_delete_def)
  with assms Some show ?thesis
    by (cases entry) (auto simp add: lru_get_def split: if_splits)
qed

lemma cached_at_lru_get_miss:
  assumes "b \<noteq> k" and "cached_at k v s n c" and "lru_get ttl c b now = (None, c')"
  shows "cached_at k v s n c'"
proof (cases "map_of c b")
  case None
  with assms show ?thesis by (simp add: lru_get_def)
next
  case (Some entry)
  with assms(3) have "c' = lru_delete c b"
    by (cases entry) (auto simp add: lru_get_def split: if_splits)
  with assms show ?thesis
    by (simp add: cached_at_lru_delete)
qed

lemma cached_at_lru_set_new:
  assumes "b \<noteq> k" and "cached_at k v s n c" and "map_of c b = None" and "Suc n < mx"
  shows "cached_at k v s (Suc n) (lru_set mx c b w now)"
proof (cases "length c \<ge> mx")
  case True
  with assms(4) have "Suc n < length c" by simp
  with assms(2) have "cached_at k v s n (butlast c)"
    by (rule cached_at_butlast)
  with assms(1) have "cached_at k v s (Suc n) ((b, w, now) # butlast c)"
    by (rule cached_at_Cons)
  with True assms(3) show ?thesis
    by (simp add: lru_set_def)
next
  case False
  with assms(3) cached_at_Cons [OF assms(1) assms(2)] show ?thesis
    by (simp add: lru_set_def)
qed

lemma cached_at_fetch_other:
  assumes "b \<noteq> k" and "cached_at k v s n (cache agg)" and "Suc n < MAX_CACHE_SIZE"
  shows "cached_at k v s (Suc n) (cache (snd (fetchWalletMetrics env agg b now)))"
proof (cases "b = [] \<or> \<not> startsWith b ''aleo1''")
  case True
  with assms(2) show ?thesis
    by (simp add: fetchWalletMetrics_def cached_at_mono)
next
  case valid: False
  obtain r c' where got: "lru_get METRICS_TTL (cache agg) b now = (r, c')"
    by (cases "lru_get METRICS_TTL (cache agg) b now")
  show ?thesis
  proof (cases r)
    case (Some cached)
    with cached_at_lru_get [OF assms(1) assms(2), of METRICS_TTL now] got valid show ?thesis
      by (simp add: fetchWalletMetrics_def)
  next
    case None
    from assms(1) assms(2) got [unfolded None] have kept: "cached_at k v s n c'"
      by (rule cached_at_lru_get_miss)
    from got [unfolded None] have absent: "map_of c' b = None"
      by (rule lru_get_miss)
    show ?thesis
    proof (cases "ENABLE_MOCK_DATA env")
      case True
      with kept got None valid show ?thesis
        by (simp add: fetchWalletMetrics_def cached_at_mono)
    next
      case False
      with cached_at_lru_set_new [OF assms(1) kept absent assms(3)] got None valid show ?thesis
        by (simp add: fetchWalletMetrics_def Let_def)
    qed
  qed
qed

lemma cached_at_fetch_all:
  "k \<notin> fst ` set others \<Longrightarrow> cached_at k v s n (cache agg) \<Longrightarrow>
   n + length others < MAX_CACHE_SIZE \<Longrightarrow>
   cached_at k v s (n + length others) (cache (fetch_all env agg others))"
proof (induction others arbitrary: agg n)
  case Nil
  then show ?case by simp
next
  case (Cons op others)
  obtain b now where op: "op = (b, now)"
    by (cases op)
  with Cons.prems have "b \<noteq> k" and "k \<notin> fst ` set others" and "Suc n < MAX_CACHE_SIZE"
    and "Suc n + length others < MAX_CACHE_SIZE"
    by auto
  from cached_at_fetch_other [OF \<open>b \<noteq> k\<close> Cons.prems(2) \<open>Suc n < MAX_CACHE_SIZE\<close>]
  have "cached_at k v s (Suc n) (cache (snd (fetchWalletMetrics env agg b now)))" .
  with \<open>k \<notin> fst ` set others\<close>
  have "cached_at k v s (Suc n + length others)
      (cache (fetch_all env (snd (fetchWalletMetrics env agg b now)) others))"
    using \<open>Suc n + length others < MAX_CACHE_SIZE\<close> by (rule Cons.IH)
  with op show ?case by simp
qed

lemma fetch_caches:
  assumes "\<not> ENABLE_MOCK_DATA env" and "fetchWalletMetrics env agg addr now = (Inr m, agg')"
  shows "cached_at addr m now 0 (cache agg') \<and> addr \<noteq> [] \<and> startsWith addr ''aleo1''"
proof -
  from assms(2) have valid: "\<not> (addr = [] \<or> \<not> startsWith addr ''aleo1'')"
    by (auto simp add: fetchWalletMetrics_def split: if_splits)
  obtain r c' where got: "lru_get METRICS_TTL (cache agg) addr now = (r, c')"
    by (cases "lru_get METRICS_TTL (cache agg) addr now")
  show ?thesis
  proof (cases r)
    case (Some cached)
    with got have "c' = (addr, cached, now) # lru_delete (cache agg) addr"
      by (auto simp add: lru_get_def split: option.splits prod.splits if_splits)
    with assms(2) valid got Some show ?thesis
      by (auto simp add: fetchWalletMetrics_def cached_at_def)
  next
    case None
    have "cached_at addr w now 0 (lru_set MAX_CACHE_SIZE c' addr w now)" for w
      by (simp add: lru_set_def cached_at_def split: option.splits)
    with assms valid got None show ?thesis
      by (auto simp add: fetchWalletMetrics_def Let_def)
  qed
qed

lemma fetch_cached:
  assumes "cached_at addr m start n (cache agg)" and "now - start \<le> METRICS_TTL"
    and "addr \<noteq> []" and "startsWith addr ''aleo1''"
  shows "fst (fetchWalletMetrics env agg addr now) = Inr m"
  using assms by (simp add: fetchWalletMetrics_def lru_get_def cached_at_def)

text \<open>
  C9, as stated, fails in development mode (\<open>FEATURES.ENABLE_MOCK_DATA\<close>): the mock
  record is returned without being stored in the cache, and its \<open>lastTransactionDate\<close>
  is computed from the time of the call, so two fetches of one address one millisecond
  apart, with nothing in between, differ in that field.
\<close>

theorem mock_fetch_counterexample:
  "ENABLE_MOCK_DATA mock_rpc \<and>
   fetchWalletMetrics mock_rpc new_aggregator ''aleo1test123'' 0 =
     (Inr (getMockMetrics ''aleo1test123'' 0), new_aggregator) \<and>
   fetchWalletMetrics mock_rpc new_aggregator ''aleo1test123'' 1 =
     (Inr (getMockMetrics ''aleo1test123'' 1), new_aggregator) \<and>
   (1::int) - 0 \<le> METRICS_TTL \<and>
   lastTransactionDate (getMockMetrics ''aleo1test123'' 0) = - 222247900 \<and>
   lastTransactionDate (getMockMetrics ''aleo1test123'' 1) = - 222247899 \<and>
   getMockMetrics ''aleo1test123'' 0 \<noteq> getMockMetrics ''aleo1test123'' 1"
proof -
  have mock: "ENABLE_MOCK_DATA mock_rpc"
    by (simp add: mock_rpc_def)
  have fetch: "fetchWalletMetrics mock_rpc new_aggregator ''aleo1test123'' now =
      (Inr (getMockMetrics ''aleo1test123'' now), new_aggregator)" for now
    by (simp add: fetchWalletMetrics_def mock new_aggregator_def startsWith_def lru_get_def)
  have date: "lastTransactionDate (getMockMetrics ''aleo1test123'' now) = of_int (now - 222247900)"
    for now
    by (simp add: getMockMetrics_def Let_def hashAddress_test)
  from date [of 0] date [of 1]
  have "getMockMetrics ''aleo1test123'' 0 \<noteq> getMockMetrics ''aleo1test123'' 1"
    by auto
  with mock fetch [of 0] fetch [of 1] date [of 0] date [of 1] show ?thesis
    by (simp add: METRICS_TTL_def)
qed

text \<open>
  C9, amended. With mock data disabled, when a fetch for an address returns a record at
  time \<open>t1\<close>, and then the aggregator serves only fetches for other addresses, fewer than
  \<open>MAX_CACHE_SIZE\<close> of them (and no \<open>clearCache\<close> or \<open>clearAllCache\<close>), a fetch for
  the same address at a time \<open>t2\<close> with \<open>t2 - t1 \<le> METRICS_TTL\<close> returns the same record,
  whatever the network answers by then.
\<close>

theorem cached_fetch_identical:
  assumes "\<not> ENABLE_MOCK_DATA env"
    and "fetchWalletMetrics env agg addr t1 = (Inr m1, agg1)"
    and "addr \<notin> fst ` set others" and "length others < MAX_CACHE_SIZE"
    and "t2 - t1 \<le> METRICS_TTL"
  shows "fst (fetchWalletMetrics env2 (fetch_all env1 agg1 others) addr t2) = Inr m1"
proof -
  from fetch_caches [OF assms(1) assms(2)]
  have first: "cached_at addr m1 t1 0 (cache agg1)" and valid: "addr \<noteq> []" "startsWith addr ''aleo1''"
    by simp_all
  from cached_at_fetch_all [OF assms(3) first, of env1] assms(4)
  have "cached_at addr m1 t1 (length others) (cache (fetch_all env1 agg1 others))"
    by simp
  then show ?thesis
    using assms(5) valid by (rule fetch_cached)
qed


text \<open>
  The amended C9 on an empty aggregator: a fetch at time 0, a fetch for another address
  at time 10, and a second fetch exactly one hour after the first.
\<close>

theorem cached_fetch_identical_witness:
  "\<not> ENABLE_MOCK_DATA answering_rpc \<and>
   fetchWalletMetrics answering_rpc new_aggregator ''aleo1test123'' 0 =
     (Inr fetched_metrics, \<lparr>cache = [(''aleo1test123'', fetched_metrics, 0)]\<rparr>) \<and>
   ''aleo1test123'' \<notin> fst ` set [(''aleo1other'', 10::int)] \<and>
   length [(''aleo1other'', 10::int)] < MAX_CACHE_SIZE \<and>
   (3600000::int) - 0 \<le> METRICS_TTL \<and>
   fst (fetchWalletMetrics answering_rpc
          (fetch_all answering_rpc \<lparr>cache = [(''aleo1test123'', fetched_metrics, 0)]\<rparr>
             [(''aleo1other'', 10)])
          ''aleo1test123'' 3600000) = Inr fetched_metrics"
proof -
  have live: "\<not> ENABLE_MOCK_DATA answering_rpc"
    by (simp add: answering_rpc_def)
  have other: "''aleo1test123'' \<notin> fst ` set [(''aleo1other'', 10::int)]"
    by simp
  have few: "length [(''aleo1other'', 10::int)] < MAX_CACHE_SIZE"
    by (simp add: MAX_CACHE_SIZE_def)
  have fresh: "(3600000::int) - 0 \<le> METRICS_TTL"
    by (simp add: METRICS_TTL_def)
  from cached_fetch_identical [OF live fetchWalletMetrics_answering other few fresh]
  show ?thesis
    using live fetchWalletMetrics_answering other few fresh by blast
qed

text \<open>
  One millisecond later the entry has expired: the metrics are fetched again, with a new
  \<open>lastTransactionDate\<close>.
\<close>

lemma cached_fetch_expired_example:
  "fst (fetchWalletMetrics answering_rpc \<lparr>cache = [(''aleo1test123'', fetched_metrics, 0)]\<rparr>
          ''aleo1test123'' 3600001)
     = Inr (fetched_metrics\<lparr>lastTransactionDate := 3600001\<rparr>)"
  by (simp add: fetchWalletMetrics_def answering_rpc_def startsWith_def
      lru_get_def lru_set_def lru_delete_def METRICS_TTL_def MAX_CACHE_SIZE_def
      queryTransactionCount_def queryWalletAgeMonths_def queryDeFiScore_def
      queryRepaymentRate_def queryTokenBalance_def or_default_def fetched_metrics_def Let_def)

section \<open>Properties of the proof generator\<close>

lemma length_generateRandomHex: "length (generateRandomHex env k) = 64"
  by (simp add: generateRandomHex_def length_bytesToHex randomBytes32_def)

text \<open>
  C10. With a \<open>sha256\<close> that returns 32 bytes, \<open>generateProof\<close> returns a proof, and
  that proof passes \<open>verifyProofLocally\<close>: its \<open>proofHash\<close> is a non-empty string of 64
  hexadecimal digits, its components \<open>a\<close>, \<open>b\<close>, \<open>c\<close> are there (two entries each), and
  its \<open>publicInputs\<close> are the three entries \<open>finalScore\<close>, \<open>timestamp\<close>, \<open>address\<close>;
  so \<open>CreditScoreSDK.generateProof\<close> returns it and never throws \<open>INVALID_PROOF\<close>.
\<close>

theorem generated_proof_verifies:
  assumes "\<forall>bs. length (sha256 env bs) = 32"
  shows "\<exists>p. generateProof env assessment = Inr p \<and>
           sdk_generateProof env assessment = Inr p \<and>
           verifyProofLocally p \<and>
           proofHash p \<noteq> [] \<and> length (proofHash p) = 64 \<and>
           set (proofHash p) \<subseteq> set ''0123456789abcdef'' \<and>
           length (proof_a (proof_components p)) = 2 \<and>
           length (proof_b (proof_components p)) = 2 \<and>
           length (proof_c (proof_components p)) = 2 \<and>
           publicInputs p \<noteq> [] \<and>
           publicInputs p = [toString (finalScore assessment), toString (timestamp assessment),
                             assessment_address assessment]"
proof -
  let ?proof = "runGroth16Prover env 1 (createWitness env 0 assessment)"
  let ?p = "\<lparr>proofHash = hashProof env ?proof,
             publicInputs = createPublicInputs assessment,
             proof_components = ?proof\<rparr>"
  have gen: "generateProof env assessment = Inr ?p"
    by (simp add: generateProof_def Let_def)
  have len: "length (proofHash ?p) = 64"
    using assms by (simp add: hashProof_def Let_def length_bytesToHex)
  then have nonempty: "proofHash ?p \<noteq> []"
    by auto
  have hex: "set (proofHash ?p) \<subseteq> set ''0123456789abcdef''"
    using set_bytesToHex [of "sha256 env (encode (JSON_stringify ?proof))"]
    by (simp add: hashProof_def Let_def hex_alphabet_def)
  have inputs: "publicInputs ?p = [toString (finalScore assessment), toString (timestamp assessment),
      assessment_address assessment]"
    by (simp add: createPublicInputs_def)
  have verified: "verifyProofLocally ?p"
    using nonempty inputs
    by (simp add: verifyProofLocally_def truthy_string_def truthy_object_def)
  have sdk: "sdk_generateProof env assessment = Inr ?p"
    using verified by (simp add: sdk_generateProof_def gen)
  have shape: "length (proof_a (proof_components ?p)) = 2 \<and>
      length (proof_b (proof_components ?p)) = 2 \<and>
      length (proof_c (proof_components ?p)) = 2"
    by (simp add: runGroth16Prover_def)
  from gen sdk verified nonempty len hex shape inputs show ?thesis
    by (intro exI [of _ ?p]) simp
qed

text \<open>
  The theorem with the stand-in hash and the zero random source, on the assessment of
  the mid-range record.
\<close>

theorem generated_proof_verifies_witness:
  "(\<forall>bs. length (sha256 zero_crypto bs) = 32) \<and>
   (\<exists>p. sdk_generateProof zero_crypto (calculateScore medium_metrics 0) = Inr p \<and>
        verifyProofLocally p \<and> length (proofHash p) = 64 \<and> length (publicInputs p) = 3)"
proof -
  have sha: "\<forall>bs. length (sha256 zero_crypto bs) = 32"
    by (simp add: zero_crypto_def)
  from generated_proof_verifies [OF sha, of "calculateScore medium_metrics 0"]
  obtain p where "sdk_generateProof zero_crypto (calculateScore medium_metrics 0) = Inr p"
    and "verifyProofLocally p" and "length (proofHash p) = 64"
    and "publicInputs p = [toString (finalScore (calculateScore medium_metrics 0)),
        toString (timestamp (calculateScore medium_metrics 0)),
        assessment_address (calculateScore medium_metrics 0)]"
    by blast
  with sha show ?thesis
    by (intro conjI exI [of _ p]) simp_all
qed

end
